theory Spec2Isabelle
  imports Complex_Main "HOL-Library.Sublist"
begin

section \<open>The commit summarizer action: a model of its two source variants\<close>

text \<open>
  The repository holds two variants of the same action: \<^verbatim>\<open>src/index.js\<close> and a
  TypeScript file (\<^verbatim>\<open>src/unnamed/part_000\<close>). They share the functions
  \<^verbatim>\<open>getCommitChanges\<close>, \<^verbatim>\<open>generateSummary\<close>, \<^verbatim>\<open>sendToAPI\<close> and \<^verbatim>\<open>run\<close>, and differ in
  the branch fallback, in the delivery API key (read and sent as a bearer token by
  \<^verbatim>\<open>index.js\<close> only), in the key order of the delivery payload and in logging.
  Every function below that differs takes the variant as its first argument.

  Calls of \<^verbatim>\<open>core.info\<close>, \<^verbatim>\<open>core.warning\<close> and \<^verbatim>\<open>core.error\<close> only write diagnostics
  and are left out; \<^verbatim>\<open>core.setOutput\<close> and \<^verbatim>\<open>core.setFailed\<close> are taken to succeed.
  Everything else the code does to its surroundings is an event of a trace: a call of one of the three components, a git command, an HTTP request that was
  made (a call of \<^verbatim>\<open>client.request\<close> that throws makes none), an output being set, the run
  being marked as failed.
\<close>

datatype variant = IndexJs | Part000

subsection \<open>Strings\<close>

text \<open>
  A JavaScript string is a sequence of UTF-16 code units; a \<^typ>\<open>char\<close> here is a code
  unit below 256. \<^verbatim>\<open>String.prototype.trim\<close> removes white space and line terminators
  from both ends; below 256 these are the code units 9 to 13, 32 and 160.
\<close>

definition isWhiteSpace :: "char \<Rightarrow> bool" where
  "isWhiteSpace c = (of_char c \<in> {9, 10, 11, 12, 13, 32, 160 :: nat})"

definition trim :: "string \<Rightarrow> string" where
  "trim s = rev (dropWhile isWhiteSpace (rev (dropWhile isWhiteSpace s)))"

text \<open>\<^verbatim>\<open>s.substring(a, b)\<close>: both indices are clamped to the length, and swapped when
  \<^verbatim>\<open>a > b\<close>.\<close>

definition substring :: "string \<Rightarrow> nat \<Rightarrow> nat \<Rightarrow> string" where
  "substring s a b = take (max a b - min a b) (drop (min a b) s)"

text \<open>\<^verbatim>\<open>s.endsWith(t)\<close>.\<close>

definition endsWith :: "string \<Rightarrow> string \<Rightarrow> bool" where
  "endsWith s t = (length t \<le> length s \<and> drop (length s - length t) s = t)"

text \<open>\<^verbatim>\<open>s.replace(/\/$/, '')\<close>: the pattern matches one slash at the very end of the
  string, and only the first match is replaced.\<close>

definition replaceTrailingSlash :: "string \<Rightarrow> string" where
  "replaceTrailingSlash s =
     (case rev s of
        [] \<Rightarrow> s
      | c # r \<Rightarrow> if c = CHR ''/'' then rev r else s)"

text \<open>\<^verbatim>\<open>Buffer.byteLength(s)\<close>: the length of the UTF-8 encoding; a code unit below 128
  takes one byte, one from 128 to 255 takes two.\<close>

definition byteLength :: "string \<Rightarrow> nat" where
  "byteLength s = sum_list (map (\<lambda>c. if of_char c < (128 :: nat) then 1 else 2) s)"

text \<open>\<^verbatim>\<open>n.toString()\<close> of a non-negative integer: its decimal digits.\<close>

definition digit :: "nat \<Rightarrow> char" where
  "digit d = char_of (48 + d)"

function toString :: "nat \<Rightarrow> string" where
  "toString n = (if n < 10 then [digit n] else toString (n div 10) @ [digit (n mod 10)])"
  by pat_completeness auto
termination
  by (relation "measure (\<lambda>n. n)") auto

declare toString.simps [simp del]

subsection \<open>Values of \<^verbatim>\<open>JSON.parse\<close>\<close>

text \<open>
  An object is the list of its members; \<^const>\<open>map_of\<close> reads a member. A number is
  its exact value (the infinities, which \<^verbatim>\<open>JSON.parse\<close> gives for literals beyond the
  range of a double, behave like any other non-zero number in the code below and have
  no constructor of their own).
\<close>

datatype json =
    JNull
  | JBool bool
  | JNum rat
  | JStr string
  | JArr "json list"
  | JObj "(string \<times> json) list"

text \<open>A JavaScript value read out of a parsed body is a \<^typ>\<open>json\<close> value or
  \<^verbatim>\<open>undefined\<close>, which is \<^const>\<open>None\<close>.\<close>

fun truthy :: "json option \<Rightarrow> bool" where
  "truthy None = False"
| "truthy (Some JNull) = False"
| "truthy (Some (JBool b)) = b"
| "truthy (Some (JNum n)) = (n \<noteq> 0)"
| "truthy (Some (JStr s)) = (s \<noteq> [])"
| "truthy (Some (JArr xs)) = True"
| "truthy (Some (JObj kvs)) = True"

text \<open>
  \<^verbatim>\<open>v.name\<close> for a value \<^verbatim>\<open>v\<close> that is neither \<^verbatim>\<open>null\<close> nor \<^verbatim>\<open>undefined\<close>, and a
  name that no built-in prototype defines (the code reads \<^verbatim>\<open>choices\<close>, \<^verbatim>\<open>message\<close> and
  \<^verbatim>\<open>content\<close>): only an object can have such a member.
\<close>

fun member :: "json \<Rightarrow> string \<Rightarrow> json option" where
  "member (JObj kvs) name = map_of kvs name"
| "member v name = None"

text \<open>
  \<^verbatim>\<open>v[0]\<close> for such a value: the first element of an array, the first code unit of a
  string, and the member named \<^verbatim>\<open>"0"\<close> of an object.
\<close>

fun index0 :: "json \<Rightarrow> json option" where
  "index0 (JArr []) = None"
| "index0 (JArr (x # xs)) = Some x"
| "index0 (JStr []) = None"
| "index0 (JStr (c # cs)) = Some (JStr [c])"
| "index0 (JObj kvs) = map_of kvs ''0''"
| "index0 v = None"

subsection \<open>Records of the program\<close>

text \<open>\<^verbatim>\<open>CommitData\<close>, the value \<^verbatim>\<open>getCommitChanges\<close> returns.\<close>

record CommitData =
  message :: string
  hash :: string
  shortHash :: string
  files :: string
  diff :: string
  branch :: string

text \<open>What \<^verbatim>\<open>new URL(apiUrl)\<close> gives, as far as the code reads it.\<close>

record url =
  protocol :: string
  hostname :: string
  port :: string
  pathname :: string
  search :: string

text \<open>A header value or a port is a string or a number.\<close>

datatype scalar = Str string | Num nat

datatype client = Https | Http

text \<open>The options of \<^verbatim>\<open>client.request\<close>, with the body written to the request.\<close>

record request =
  via :: client
  req_hostname :: string
  req_port :: scalar
  req_path :: string
  req_method :: string
  req_headers :: "(string \<times> scalar) list"
  req_body :: string

text \<open>An exception of the platform, with its message.\<close>

datatype thrown = SyntaxError string | TypeError string

fun thrown_message :: "thrown \<Rightarrow> string" where
  "thrown_message (SyntaxError m) = m"
| "thrown_message (TypeError m) = m"

text \<open>
  What becomes of a call of \<^verbatim>\<open>client.request\<close> with the body written to it. The call
  itself can throw, when it finds the options invalid (a header value with a line break,
  for example): then nothing is sent. Otherwise a request is made, and it ends with the
  \<^verbatim>\<open>error\<close> event (a transport error, with its message), with the \<^verbatim>\<open>timeout\<close> event after
  30 seconds, or with a complete response: its status code, headers and body. (A
  response that never ends is not modelled.)
\<close>

datatype outcome =
    Thrown thrown
  | NetError string
  | NetTimeout
  | NetResponse nat "(string \<times> string) list" string

text \<open>\<^verbatim>\<open>APIResponse\<close>, what \<^verbatim>\<open>sendToAPI\<close> resolves with.\<close>

record APIResponse =
  statusCode :: nat
  headers :: "(string \<times> string) list"
  body :: string

text \<open>
  The surroundings of one run: the inputs as \<^verbatim>\<open>core.getInput\<close> returns them (the value
  given in the workflow with the white space at both ends removed; the empty string for
  an input that is not set), the two environment variables (the empty
  string when unset), the git commands (\<^const>\<open>None\<close> when \<^verbatim>\<open>execSync\<close> throws), the
  network, the clock, and the platform functions \<^verbatim>\<open>JSON.parse\<close>, \<^verbatim>\<open>JSON.stringify\<close> and
  \<^verbatim>\<open>new URL\<close> (\<^const>\<open>Inl\<close> what they throw).
\<close>

record inputs =
  changes :: string
  blackbox_api_key :: string
  api_key :: string
  api_url :: string
  model :: string

record world =
  execSync :: "string \<Rightarrow> string option"
  GITHUB_REPOSITORY :: string
  GITHUB_REF_NAME :: string
  send :: "request \<Rightarrow> outcome"
  toISOString_now :: string
  JSON_parse :: "string \<Rightarrow> thrown + json"
  JSON_stringify :: "json \<Rightarrow> string"
  new_URL :: "string \<Rightarrow> thrown + url"

subsection \<open>Errors and events\<close>

text \<open>
  One constructor for each place where the code throws or rejects. \<open>SummaryThrown\<close> and
  \<open>DeliveryThrown\<close> are the \<^verbatim>\<open>catch (error) { reject(error) }\<close> around the bodies of
  \<^verbatim>\<open>generateSummary\<close> and \<^verbatim>\<open>sendToAPI\<close>: they carry the message of what was thrown there,
  by \<^verbatim>\<open>new URL\<close> or by \<^verbatim>\<open>client.request\<close>.
\<close>

datatype error =
    MissingBlackboxKey
  | NoCommitData
  | InvalidResponseFormat
  | FailedToParse thrown
  | SummaryThrown string
  | SummaryRequestError string
  | SummaryTimeout
  | DeliveryThrown string
  | DeliveryRequestError string
  | DeliveryTimeout

text \<open>\<^verbatim>\<open>error.message\<close>, what \<^verbatim>\<open>run\<close> passes to \<^verbatim>\<open>core.setFailed\<close>.\<close>

fun error_message :: "error \<Rightarrow> string" where
  "error_message MissingBlackboxKey = ''BlackBox API key is required''"
| "error_message NoCommitData = ''Could not retrieve commit data and no changes provided''"
| "error_message InvalidResponseFormat = ''Invalid response format from BlackBox AI''"
| "error_message (FailedToParse t) = ''Failed to parse BlackBox AI response: '' @ thrown_message t"
| "error_message (SummaryThrown m) = m"
| "error_message (SummaryRequestError m) = m"
| "error_message SummaryTimeout = ''BlackBox AI request timeout''"
| "error_message (DeliveryThrown m) = m"
| "error_message (DeliveryRequestError m) = m"
| "error_message DeliveryTimeout = ''Request timeout''"

datatype component = GetCommitChanges | GenerateSummary | SendToAPI

datatype event =
    Call component
  | Exec string
  | Request component request
  | SetOutput string string
  | SetFailed string

subsection \<open>The Repository Inspector: \<^verbatim>\<open>getCommitChanges\<close>\<close>

definition cmd_message :: string where
  \<open>cmd_message = ''git log -1 --pretty=format:"%s"''\<close>

definition cmd_hash :: string where
  \<open>cmd_hash = ''git log -1 --pretty=format:"%H"''\<close>

definition cmd_files :: string where
  \<open>cmd_files = ''git show --name-status HEAD''\<close>

definition cmd_diff :: string where
  \<open>cmd_diff = ''git show HEAD --pretty=format:"" --name-only''\<close>

definition cmd_branch :: string where
  \<open>cmd_branch = ''git branch --show-current''\<close>

definition cmd_rev_parse :: string where
  \<open>cmd_rev_parse = ''git rev-parse --abbrev-ref HEAD''\<close>

definition cmd_remote :: string where
  \<open>cmd_remote = ''git config --get remote.origin.url''\<close>

text \<open>
  \<^verbatim>\<open>execSync(cmd, { encoding: 'utf8' }).trim()\<close> inside the \<^verbatim>\<open>try\<close> block of
  \<^verbatim>\<open>getCommitChanges\<close>, followed by the rest of the block \<open>k\<close>: when the command
  throws, the block is left and the function returns \<^verbatim>\<open>null\<close>.
\<close>

definition exec :: "world \<Rightarrow> string \<Rightarrow> (string \<Rightarrow> event list \<times> 'a option) \<Rightarrow> event list \<times> 'a option" where
  "exec w cmd k =
     (case execSync w cmd of
        None \<Rightarrow> ([Exec cmd], None)
      | Some out \<Rightarrow> (case k (trim out) of (es, r) \<Rightarrow> (Exec cmd # es, r)))"

text \<open>
  The branch. \<^verbatim>\<open>index.js\<close> falls back to \<^verbatim>\<open>git rev-parse\<close> when the first command prints
  nothing (\<^verbatim>\<open>a.trim() || b.trim()\<close>); the TypeScript variant falls back when the first
  command throws.
\<close>

definition exec_branch :: "variant \<Rightarrow> world \<Rightarrow> (string \<Rightarrow> event list \<times> 'a option) \<Rightarrow> event list \<times> 'a option" where
  "exec_branch v w k =
     (case v of
        IndexJs \<Rightarrow>
          exec w cmd_branch (\<lambda>b. if b \<noteq> [] then k b else exec w cmd_rev_parse k)
      | Part000 \<Rightarrow>
          (case execSync w cmd_branch of
             Some out \<Rightarrow> (case k (trim out) of (es, r) \<Rightarrow> (Exec cmd_branch # es, r))
           | None \<Rightarrow> (case exec w cmd_rev_parse k of (es, r) \<Rightarrow> (Exec cmd_branch # es, r))))"

definition getCommitChanges :: "variant \<Rightarrow> world \<Rightarrow> event list \<times> CommitData option" where
  "getCommitChanges v w =
     (case
        exec w cmd_message (\<lambda>commitMessage.
        exec w cmd_hash (\<lambda>commitHash.
        exec w cmd_files (\<lambda>changedFiles.
        exec w cmd_diff (\<lambda>diffOutput.
        exec_branch v w (\<lambda>branch.
          ([], Some \<lparr> message = commitMessage,
                      hash = commitHash,
                      shortHash = substring commitHash 0 8,
                      files = changedFiles,
                      diff = diffOutput,
                      branch = branch \<rparr>))))))
      of (es, r) \<Rightarrow> (Call GetCommitChanges # es, r))"

subsection \<open>The Summary Generator: \<^verbatim>\<open>generateSummary\<close>\<close>

definition prompt :: "CommitData \<Rightarrow> string" where
  "prompt commitData =
     ''Analyze this git commit and provide a concise, professional summary focusing on:\<newline>'' @
     ''- What changed (key functionality, files, features)\<newline>'' @
     ''- Why the change was made (purpose, problem solved)\<newline>'' @
     ''- Impact on users or system\<newline>'' @
     ''\<newline>'' @
     ''Commit Details:\<newline>'' @
     ''- Hash: '' @ shortHash commitData @ ''\<newline>'' @
     ''- Message: '' @ message commitData @ ''\<newline>'' @
     ''- Files: '' @ files commitData @ ''\<newline>'' @
     ''\<newline>'' @
     ''Provide a clear, structured summary in 2-4 bullet points.''"

definition summaryPayload :: "CommitData \<Rightarrow> string \<Rightarrow> json" where
  "summaryPayload commitData mdl =
     JObj [(''model'', JStr mdl),
           (''messages'', JArr [
              JObj [(''role'', JStr ''system''),
                    (''content'', JStr ''You are a technical writer creating concise commit summaries for development teams.'')],
              JObj [(''role'', JStr ''user''),
                    (''content'', JStr (prompt commitData))]]),
           (''temperature'', JNum (3 / 10)),
           (''max_tokens'', JNum 300)]"

definition summaryRequest :: "world \<Rightarrow> CommitData \<Rightarrow> string \<Rightarrow> string \<Rightarrow> request" where
  "summaryRequest w commitData blackboxApiKey mdl =
     (let postData = JSON_stringify w (summaryPayload commitData mdl) in
      \<lparr> via = Https,
        req_hostname = ''api.blackbox.ai'',
        req_port = Num 443,
        req_path = ''/chat/completions'',
        req_method = ''POST'',
        req_headers = [(''Content-Type'', Str ''application/json''),
                       (''Content-Length'', Num (byteLength postData)),
                       (''Authorization'', Str (''Bearer '' @ blackboxApiKey)),
                       (''User-Agent'', Str ''GitHub-Action-Summarizer/1.0'')],
        req_body = postData \<rparr>)"

text \<open>
  The condition \<^verbatim>\<open>response.choices && response.choices[0] && response.choices[0].message\<close>
  for a \<^verbatim>\<open>response\<close> that is not \<^verbatim>\<open>null\<close>: the message when the condition holds,
  \<^const>\<open>None\<close> when one of the three values is falsy.
\<close>

definition first_message :: "json \<Rightarrow> json option" where
  "first_message response =
     (case member response ''choices'' of
        None \<Rightarrow> None
      | Some choices \<Rightarrow>
          if \<not> truthy (Some choices) then None
          else (case index0 choices of
                  None \<Rightarrow> None
                | Some first \<Rightarrow>
                    if \<not> truthy (Some first) then None
                    else (case member first ''message'' of
                            None \<Rightarrow> None
                          | Some msg \<Rightarrow> if truthy (Some msg) then Some msg else None)))"

text \<open>
  \<^verbatim>\<open>message.content.trim()\<close>: a string is trimmed; on anything else the call throws a
  \<^verbatim>\<open>TypeError\<close>, which the \<^verbatim>\<open>catch (parseError)\<close> around it reports.
\<close>

definition content_trim :: "json \<Rightarrow> thrown + string" where
  \<open>content_trim msg =
     (case member msg ''content'' of
        Some (JStr s) \<Rightarrow> Inr (trim s)
      | None \<Rightarrow> Inl (TypeError ''Cannot read properties of undefined (reading 'trim')'')
      | Some JNull \<Rightarrow> Inl (TypeError ''Cannot read properties of null (reading 'trim')'')
      | Some _ \<Rightarrow> Inl (TypeError ''response.choices[0].message.content.trim is not a function''))\<close>

text \<open>The handler of the response's \<^verbatim>\<open>end\<close> event, on the accumulated body.\<close>

definition on_end :: "world \<Rightarrow> string \<Rightarrow> error + string" where
  \<open>on_end w data =
     (case JSON_parse w data of
        Inl parseError \<Rightarrow> Inl (FailedToParse parseError)
      | Inr response \<Rightarrow>
          if response = JNull
          then Inl (FailedToParse (TypeError ''Cannot read properties of null (reading 'choices')''))
          else (case first_message response of
                  None \<Rightarrow> Inl InvalidResponseFormat
                | Some msg \<Rightarrow>
                    (case content_trim msg of
                       Inl t \<Rightarrow> Inl (FailedToParse t)
                     | Inr summary \<Rightarrow> Inr summary)))\<close>

definition generateSummary :: "world \<Rightarrow> CommitData \<Rightarrow> string \<Rightarrow> string \<Rightarrow> event list \<times> (error + string)" where
  "generateSummary w commitData blackboxApiKey mdl =
     (let req = summaryRequest w commitData blackboxApiKey mdl in
      case send w req of
        Thrown t \<Rightarrow> ([Call GenerateSummary], Inl (SummaryThrown (thrown_message t)))
      | NetError m \<Rightarrow>
          ([Call GenerateSummary, Request GenerateSummary req], Inl (SummaryRequestError m))
      | NetTimeout \<Rightarrow>
          ([Call GenerateSummary, Request GenerateSummary req], Inl SummaryTimeout)
      | NetResponse status hs data \<Rightarrow>
          ([Call GenerateSummary, Request GenerateSummary req], on_end w data))"

subsection \<open>The Delivery Client: \<^verbatim>\<open>sendToAPI\<close>\<close>

text \<open>
  \<^verbatim>\<open>remoteUrl.match(/github\.com[:/]([^/]+\/[^/.]+)/)\<close>, the first group of the leftmost
  match. At one position the match is forced: after \<^verbatim>\<open>github.com\<close> and a colon or slash,
  the longest run without a slash (not empty), a slash, and the longest run without
  slash or dot (not empty).
\<close>

definition match_here :: "string \<Rightarrow> string option" where
  "match_here s =
     (if prefix ''github.com'' s then
        (case drop 10 s of
           [] \<Rightarrow> None
         | c # rest \<Rightarrow>
             if c = CHR '':'' \<or> c = CHR ''/'' then
               (let owner = takeWhile (\<lambda>x. x \<noteq> CHR ''/'') rest in
                case dropWhile (\<lambda>x. x \<noteq> CHR ''/'') rest of
                  [] \<Rightarrow> None
                | slash # rest2 \<Rightarrow>
                    (let name = takeWhile (\<lambda>x. x \<noteq> CHR ''/'' \<and> x \<noteq> CHR ''.'') rest2 in
                     if owner \<noteq> [] \<and> name \<noteq> [] then Some (owner @ ''/'' @ name) else None))
             else None)
      else None)"

fun match_repository :: "string \<Rightarrow> string option" where
  "match_repository [] = None"
| "match_repository (c # cs) =
     (case match_here (c # cs) of
        Some r \<Rightarrow> Some r
      | None \<Rightarrow> match_repository cs)"

text \<open>The repository name: the environment variable, else the git remote.\<close>

definition repository_name :: "world \<Rightarrow> event list \<times> string" where
  "repository_name w =
     (if GITHUB_REPOSITORY w \<noteq> [] then ([], GITHUB_REPOSITORY w)
      else
        ([Exec cmd_remote],
         case execSync w cmd_remote of
           None \<Rightarrow> ''unknown/repository''
         | Some out \<Rightarrow>
             (case match_repository (trim out) of
                Some r \<Rightarrow> r
              | None \<Rightarrow> ''unknown/repository'')))"

definition commit_sha :: "CommitData option \<Rightarrow> string" where
  "commit_sha commitData =
     (case commitData of
        None \<Rightarrow> ''unknown''
      | Some c \<Rightarrow> if hash c \<noteq> [] then hash c else ''unknown'')"

definition branch_name :: "world \<Rightarrow> CommitData option \<Rightarrow> string" where
  "branch_name w commitData =
     (let fallback = (if GITHUB_REF_NAME w \<noteq> [] then GITHUB_REF_NAME w else ''unknown'') in
      case commitData of
        None \<Rightarrow> fallback
      | Some c \<Rightarrow> if branch c \<noteq> [] then branch c else fallback)"

definition deliveryPayload :: "variant \<Rightarrow> world \<Rightarrow> string \<Rightarrow> string \<Rightarrow> CommitData option \<Rightarrow> json" where
  "deliveryPayload v w summary repository commitData =
     (case v of
        IndexJs \<Rightarrow>
          JObj [(''summary'', JStr summary),
                (''repository'', JStr repository),
                (''commit_sha'', JStr (commit_sha commitData)),
                (''branch'', JStr (branch_name w commitData)),
                (''timestamp'', JStr (toISOString_now w))]
      | Part000 \<Rightarrow>
          JObj [(''repository'', JStr repository),
                (''commit_sha'', JStr (commit_sha commitData)),
                (''branch'', JStr (branch_name w commitData)),
                (''summary'', JStr summary),
                (''timestamp'', JStr (toISOString_now w))])"

text \<open>
  The path of the request, from \<^verbatim>\<open>url.pathname\<close> and \<^verbatim>\<open>url.search\<close>:
  \<^verbatim>\<open>if (!path.endsWith('/generate-content')) path = path.replace(/\/$/, '') + '/generate-content';\<close>
  and then \<^verbatim>\<open>path += url.search\<close>.
\<close>

definition normalizePath :: "string \<Rightarrow> string" where
  "normalizePath path =
     (if \<not> endsWith path ''/generate-content''
      then replaceTrailingSlash path @ ''/generate-content''
      else path)"

definition requestPath :: "url \<Rightarrow> string" where
  "requestPath u = normalizePath (pathname u) @ search u"

definition deliveryHeaders :: "variant \<Rightarrow> string \<Rightarrow> string \<Rightarrow> (string \<times> scalar) list" where
  "deliveryHeaders v postData apiKey =
     (case v of
        IndexJs \<Rightarrow>
          [(''Content-Type'', Str ''application/json''),
           (''Content-Length'', Num (byteLength postData)),
           (''Authorization'', Str (''Bearer '' @ apiKey)),
           (''User-Agent'', Str ''GitHub-Action-Send-Changes/1.0'')]
      | Part000 \<Rightarrow>
          [(''Content-Type'', Str ''application/json''),
           (''Content-Length'', Num (byteLength postData)),
           (''User-Agent'', Str ''GitHub-Action-Send-Changes/1.0'')])"

definition deliveryRequest ::
  "variant \<Rightarrow> world \<Rightarrow> url \<Rightarrow> string \<Rightarrow> string \<Rightarrow> string \<Rightarrow> CommitData option \<Rightarrow> request" where
  "deliveryRequest v w u summary repository apiKey commitData =
     (let isHttps = (protocol u = ''https:'');
          postData = JSON_stringify w (deliveryPayload v w summary repository commitData) in
      \<lparr> via = (if isHttps then Https else Http),
        req_hostname = hostname u,
        req_port = (if port u \<noteq> [] then Str (port u) else Num (if isHttps then 443 else 80)),
        req_path = requestPath u,
        req_method = ''POST'',
        req_headers = deliveryHeaders v postData apiKey,
        req_body = postData \<rparr>)"

text \<open>
  \<^verbatim>\<open>sendToAPI(summary, apiKey, apiUrl, commitData)\<close>; the TypeScript variant has no
  \<^verbatim>\<open>apiKey\<close> parameter, and ignores the one given here.
\<close>

definition sendToAPI ::
  "variant \<Rightarrow> world \<Rightarrow> string \<Rightarrow> string \<Rightarrow> string \<Rightarrow> CommitData option
     \<Rightarrow> event list \<times> (error + APIResponse)" where
  "sendToAPI v w summary apiKey apiUrl commitData =
     (case new_URL w apiUrl of
        Inl t \<Rightarrow> ([Call SendToAPI], Inl (DeliveryThrown (thrown_message t)))
      | Inr u \<Rightarrow>
          (case repository_name w of
             (es, repository) \<Rightarrow>
               (let req = deliveryRequest v w u summary repository apiKey commitData in
                case send w req of
                  Thrown t \<Rightarrow>
                    (Call SendToAPI # es, Inl (DeliveryThrown (thrown_message t)))
                | NetError m \<Rightarrow>
                    (Call SendToAPI # es @ [Request SendToAPI req],
                     Inl (DeliveryRequestError m))
                | NetTimeout \<Rightarrow>
                    (Call SendToAPI # es @ [Request SendToAPI req], Inl DeliveryTimeout)
                | NetResponse status hs data \<Rightarrow>
                    (Call SendToAPI # es @ [Request SendToAPI req],
                     Inr \<lparr> statusCode = status, headers = hs, body = data \<rparr>))))"

subsection \<open>The orchestrator: \<^verbatim>\<open>run\<close>\<close>

text \<open>\<^verbatim>\<open>apiKey && apiUrl\<close> in \<^verbatim>\<open>index.js\<close>, \<^verbatim>\<open>!!apiUrl\<close> in the TypeScript variant.\<close>

definition hasApiConfig :: "variant \<Rightarrow> inputs \<Rightarrow> bool" where
  "hasApiConfig v inp =
     (case v of
        IndexJs \<Rightarrow> api_key inp \<noteq> [] \<and> api_url inp \<noteq> []
      | Part000 \<Rightarrow> api_url inp \<noteq> [])"

text \<open>
  The block \<^verbatim>\<open>if (changes) { ... } else { ... }\<close> of \<^verbatim>\<open>run\<close>: it leaves \<^verbatim>\<open>commitData\<close>
  and \<^verbatim>\<open>summary\<close>, or throws.
\<close>

definition summary_block ::
  "variant \<Rightarrow> world \<Rightarrow> inputs \<Rightarrow> string \<Rightarrow> event list \<times> (error + CommitData option \<times> string)" where
  "summary_block v w inp mdl =
     (if changes inp \<noteq> [] then ([], Inr (None, changes inp))
      else
        (case getCommitChanges v w of
           (es, None) \<Rightarrow> (es, Inl NoCommitData)
         | (es, Some commitData) \<Rightarrow>
             (case generateSummary w commitData (blackbox_api_key inp) mdl of
                (es', Inl e) \<Rightarrow> (es @ es', Inl e)
              | (es', Inr summary) \<Rightarrow> (es @ es', Inr (Some commitData, summary)))))"

text \<open>The block \<^verbatim>\<open>if (hasApiConfig) { ... } else { ... }\<close> of \<^verbatim>\<open>run\<close>.\<close>

definition delivery_block ::
  "variant \<Rightarrow> world \<Rightarrow> inputs \<Rightarrow> CommitData option \<Rightarrow> string \<Rightarrow> event list" where
  "delivery_block v w inp commitData summary =
     (if hasApiConfig v inp then
        (case sendToAPI v w summary (api_key inp) (api_url inp) commitData of
           (es, Inl e) \<Rightarrow> es @ [SetFailed (error_message e)]
         | (es, Inr response) \<Rightarrow>
             es @ [SetOutput ''response'' (body response),
                   SetOutput ''status'' (toString (statusCode response))])
      else
        [SetOutput ''response'' ''No API configured - summary generated only'',
         SetOutput ''status'' ''200''])"

text \<open>\<^verbatim>\<open>core.getInput('model') || 'blackboxai'\<close>.\<close>

definition model_or_default :: "inputs \<Rightarrow> string" where
  "model_or_default inp = (if model inp \<noteq> [] then model inp else ''blackboxai'')"

text \<open>\<^verbatim>\<open>run()\<close>: the trace of the whole run. Every exception ends in \<^verbatim>\<open>core.setFailed\<close>.\<close>

definition run :: "variant \<Rightarrow> world \<Rightarrow> inputs \<Rightarrow> event list" where
  "run v w inp =
     (let mdl = model_or_default inp in
      if blackbox_api_key inp = [] then [SetFailed (error_message MissingBlackboxKey)]
      else
        (case summary_block v w inp mdl of
           (es, Inl e) \<Rightarrow> es @ [SetFailed (error_message e)]
         | (es, Inr (commitData, summary)) \<Rightarrow>
             es @ [SetOutput ''summary'' summary] @ delivery_block v w inp commitData summary))"

subsection \<open>Reading a trace\<close>

text \<open>The value of an output at the end of the run: the last one set under that name.\<close>

fun outputs :: "event list \<Rightarrow> string \<Rightarrow> string option" where
  "outputs [] name = None"
| "outputs (e # es) name =
     (case outputs es name of
        Some x \<Rightarrow> Some x
      | None \<Rightarrow> (case e of SetOutput k x \<Rightarrow> if k = name then Some x else None | _ \<Rightarrow> None))"

fun is_SetFailed :: "event \<Rightarrow> bool" where
  "is_SetFailed (SetFailed m) = True"
| "is_SetFailed e = False"

text \<open>\<^verbatim>\<open>core.setFailed\<close> sets the exit code of the process to 1; otherwise it stays 0.\<close>

definition failed :: "event list \<Rightarrow> bool" where
  "failed tr = list_ex is_SetFailed tr"

definition exitCode :: "event list \<Rightarrow> nat" where
  "exitCode tr = (if failed tr then 1 else 0)"

fun is_delivery_request :: "event \<Rightarrow> bool" where
  "is_delivery_request (Request SendToAPI q) = True"
| "is_delivery_request e = False"

fun is_summary_request :: "event \<Rightarrow> bool" where
  "is_summary_request (Request GenerateSummary q) = True"
| "is_summary_request e = False"

fun is_SetOutput :: "event \<Rightarrow> bool" where
  "is_SetOutput (SetOutput k x) = True"
| "is_SetOutput e = False"

text \<open>The requests a trace sends to the delivery endpoint, in order.\<close>

fun delivery_requests :: "event list \<Rightarrow> request list" where
  "delivery_requests [] = []"
| "delivery_requests (Request SendToAPI q # es) = q # delivery_requests es"
| "delivery_requests (e # es) = delivery_requests es"

text \<open>The events of the summary block and of the Delivery Client.\<close>

fun summary_event :: "event \<Rightarrow> bool" where
  "summary_event (Call c) = (c \<noteq> SendToAPI)"
| "summary_event (Exec c) = (c \<noteq> cmd_remote)"
| "summary_event (Request c q) = (c = GenerateSummary)"
| "summary_event e = False"

fun delivery_event :: "event \<Rightarrow> bool" where
  "delivery_event (Call c) = (c = SendToAPI)"
| "delivery_event (Exec c) = (c = cmd_remote)"
| "delivery_event (Request c q) = (c = SendToAPI)"
| "delivery_event e = False"

subsection \<open>Concrete surroundings\<close>

text \<open>
  A repository with one commit and a remote on GitHub, no \<^verbatim>\<open>GITHUB_REPOSITORY\<close>, a
  summarization backend that answers with one choice, and a delivery endpoint whose
  answer is the parameter; \<^verbatim>\<open>client.request\<close> throws on a header value with a line
  break. \<^verbatim>\<open>JSON.parse\<close> is given on the three bodies used below,
  \<^verbatim>\<open>new URL\<close> on one URL; everything else throws.
\<close>

definition body_array :: string where
  \<open>body_array = ''{"choices":[{"message":{"content":" Hello "}}]}''\<close>

definition body_object :: string where
  \<open>body_object = ''{"choices":{"0":{"message":{"content":"hi"}}}}''\<close>

definition body_no_choices :: string where
  \<open>body_no_choices = ''{"error":"rate limited"}''\<close>

text \<open>What \<^verbatim>\<open>client.request\<close> does with a header value that holds a line break.\<close>

fun line_break_in :: "string \<times> scalar \<Rightarrow> bool" where
  "line_break_in (name, Str s) = (CHR 0x0A \<in> set s)"
| "line_break_in (name, Num n) = False"

definition invalid_header :: thrown where
  \<open>invalid_header = TypeError ''Invalid character in header content ["Authorization"]''\<close>

definition demo_url :: url where
  "demo_url = \<lparr> protocol = ''https:'', hostname = ''x.com'', port = [],
                pathname = ''/a/'', search = ''?v=1'' \<rparr>"

definition demo_world :: "outcome \<Rightarrow> world" where
  "demo_world delivered =
     \<lparr> execSync = (\<lambda>cmd.
          if cmd = cmd_message then Some ''Fix the parser''
          else if cmd = cmd_hash then Some ''0123456789abcdef0123456789abcdef01234567''
          else if cmd = cmd_files then Some ''M index.js''
          else if cmd = cmd_diff then Some ''index.js''
          else if cmd = cmd_branch then Some ''main''
          else if cmd = cmd_remote then Some ''git@github.com:owner/repo.git''
          else None),
       GITHUB_REPOSITORY = [],
       GITHUB_REF_NAME = ''main'',
       send = (\<lambda>q. if list_ex line_break_in (req_headers q) then Thrown invalid_header
                     else if req_hostname q = ''api.blackbox.ai''
                     then NetResponse 200 [] body_array else delivered),
       toISOString_now = ''2024-01-01T00:00:00.000Z'',
       JSON_parse = (\<lambda>s.
          if s = body_array then
            Inr (JObj [(''choices'',
              JArr [JObj [(''message'', JObj [(''content'', JStr '' Hello '')])]])])
          else if s = body_object then
            Inr (JObj [(''choices'',
              JObj [(''0'', JObj [(''message'', JObj [(''content'', JStr ''hi'')])])])])
          else if s = body_no_choices then
            Inr (JObj [(''error'', JStr ''rate limited'')])
          else Inl (SyntaxError ''Unexpected end of JSON input'')),
       JSON_stringify = (\<lambda>j. ''{}''),
       new_URL = (\<lambda>s. if s = ''https://x.com/a/?v=1'' then Inr demo_url
                        else Inl (TypeError ''Invalid URL'')) \<rparr>"

definition demo_inputs :: inputs where
  "demo_inputs =
     \<lparr> changes = ''Custom changes data here'',
       blackbox_api_key = ''bb-key'',
       api_key = ''secret'',
       api_url = ''https://x.com/a/?v=1'',
       model = [] \<rparr>"

definition not_found :: outcome where
  "not_found = NetResponse 404 [] ''Not Found''"

text \<open>The same repository with a hash of six characters.\<close>

definition short_hash_world :: world where
  "short_hash_world =
     (demo_world NetTimeout)\<lparr>execSync := (\<lambda>cmd.
        if cmd = cmd_hash then Some ''abc123'' else execSync (demo_world NetTimeout) cmd)\<rparr>"

text \<open>Variations of the inputs: one input emptied, a URL without scheme, a delivery API
  key of two lines.\<close>

definition inputs_without_key :: inputs where
  "inputs_without_key = demo_inputs\<lparr>blackbox_api_key := []\<rparr>"

definition inputs_bad_url :: inputs where
  "inputs_bad_url = demo_inputs\<lparr>api_url := ''example.com/changes''\<rparr>"

definition inputs_key_with_line_break :: inputs where
  "inputs_key_with_line_break = demo_inputs\<lparr>api_key := ''sec\<newline>ret''\<rparr>"

definition inputs_without_api_key :: inputs where
  "inputs_without_api_key = demo_inputs\<lparr>api_key := []\<rparr>"

definition inputs_without_url :: inputs where
  "inputs_without_url = demo_inputs\<lparr>api_url := []\<rparr>"

definition inputs_without_changes :: inputs where
  "inputs_without_changes = demo_inputs\<lparr>changes := []\<rparr>"

definition inputs_without_changes_and_url :: inputs where
  "inputs_without_changes_and_url = demo_inputs\<lparr>changes := [], api_url := []\<rparr>"

text \<open>The same surroundings outside a git repository: every git command fails.\<close>

definition no_git_world :: world where
  "no_git_world = (demo_world not_found)\<lparr>execSync := (\<lambda>cmd. None)\<rparr>"

subsection \<open>The response shape, in the words of the specification\<close>

text \<open>
  The specification asks for a non-empty \<^verbatim>\<open>choices\<close> array whose first element has a
  \<^verbatim>\<open>message.content\<close> string. \<open>content_at first\<close> is that content, with \<open>first\<close>
  selecting the first choice; \<open>spec_content\<close> selects the first element of an array, as
  the specification says. \<open>keyed_first\<close> selects the member named \<^verbatim>\<open>"0"\<close> of an object
  instead.
\<close>

fun array_first :: "json \<Rightarrow> json option" where
  "array_first (JArr (x # xs)) = Some x"
| "array_first v = None"

fun keyed_first :: "json \<Rightarrow> json option" where
  "keyed_first (JObj kvs) = map_of kvs ''0''"
| "keyed_first v = None"

fun string_value :: "json \<Rightarrow> string option" where
  "string_value (JStr s) = Some s"
| "string_value v = None"

definition content_at :: "(json \<Rightarrow> json option) \<Rightarrow> json \<Rightarrow> string option" where
  "content_at first response =
     Option.bind (member response ''choices'') (\<lambda>choices.
     Option.bind (first choices) (\<lambda>choice.
     Option.bind (member choice ''message'') (\<lambda>msg.
     Option.bind (member msg ''content'') string_value)))"

definition spec_content :: "json \<Rightarrow> string option" where
  "spec_content response = content_at array_first response"

section \<open>Lemmas\<close>

subsection \<open>Strings and the Repository Inspector\<close>

lemma endsWith_suffix: "endsWith s t = suffix t s"
proof
  assume "endsWith s t"
  then have "s = take (length s - length t) s @ t"
    unfolding endsWith_def by (metis append_take_drop_id)
  then show "suffix t s" unfolding suffix_def by blast
next
  assume "suffix t s"
  then obtain zs where "s = zs @ t" unfolding suffix_def by blast
  then show "endsWith s t" unfolding endsWith_def by simp
qed

lemma replaceTrailingSlash_butlast:
  "replaceTrailingSlash s = (if suffix ''/'' s then butlast s else s)"
proof (cases s rule: rev_cases)
  case Nil
  then show ?thesis by (simp add: replaceTrailingSlash_def)
next
  case (snoc ys y)
  then show ?thesis by (auto simp: replaceTrailingSlash_def suffix_def)
qed

lemma endsWith_append_same: "endsWith (s @ t) t"
  by (simp add: endsWith_def)

lemma normalizePath_idem: "normalizePath (normalizePath p) = normalizePath p"
  by (simp add: normalizePath_def endsWith_append_same)

lemma exec_Some:
  "exec w cmd k = (es, Some r) \<Longrightarrow> \<exists>out es'. execSync w cmd = Some out \<and> k (trim out) = (es', Some r) \<and> es = Exec cmd # es'"
  by (auto simp: exec_def split: option.splits prod.splits)

lemma exec_branch_Some:
  "exec_branch v w k = (es, Some r) \<Longrightarrow> \<exists>b es'. k b = (es', Some r)"
proof (cases v)
  case IndexJs
  assume a: "exec_branch v w k = (es, Some r)"
  show ?thesis
  proof (cases "execSync w cmd_branch")
    case None
    with a IndexJs show ?thesis by (simp add: exec_branch_def exec_def)
  next
    case (Some out)
    show ?thesis
    proof (cases "trim out = []")
      case True
      with a IndexJs Some obtain es1 where "exec w cmd_rev_parse k = (es1, Some r)"
        by (auto simp: exec_branch_def exec_def split: prod.splits)
      then show ?thesis by (blast dest: exec_Some)
    next
      case False
      with a IndexJs Some obtain es1 where "k (trim out) = (es1, Some r)"
        by (auto simp: exec_branch_def exec_def split: prod.splits)
      then show ?thesis by blast
    qed
  qed
next
  case Part000
  assume a: "exec_branch v w k = (es, Some r)"
  show ?thesis
  proof (cases "execSync w cmd_branch")
    case None
    with a Part000 obtain es1 where "exec w cmd_rev_parse k = (es1, Some r)"
      by (auto simp: exec_branch_def split: prod.splits)
    then show ?thesis by (blast dest: exec_Some)
  next
    case (Some out)
    with a Part000 obtain es1 where "k (trim out) = (es1, Some r)"
      by (auto simp: exec_branch_def split: prod.splits)
    then show ?thesis by blast
  qed
qed

lemma getCommitChanges_Some:
  assumes "getCommitChanges v w = (es, Some c)"
  shows "shortHash c = substring (hash c) 0 8"
proof -
  from assms obtain es1 where
    "exec w cmd_message (\<lambda>commitMessage.
        exec w cmd_hash (\<lambda>commitHash.
        exec w cmd_files (\<lambda>changedFiles.
        exec w cmd_diff (\<lambda>diffOutput.
        exec_branch v w (\<lambda>branch.
          ([], Some \<lparr> message = commitMessage,
                      hash = commitHash,
                      shortHash = substring commitHash 0 8,
                      files = changedFiles,
                      diff = diffOutput,
                      branch = branch \<rparr>)))))) = (es1, Some c)"
    by (auto simp: getCommitChanges_def split: prod.splits)
  then show ?thesis
    by (auto dest!: exec_Some exec_branch_Some)
qed

lemma substring_take: "substring s 0 n = take n s"
  by (simp add: substring_def)

subsection \<open>Traces\<close>

lemma outputs_append:
  "outputs (xs @ ys) n = (case outputs ys n of Some x \<Rightarrow> Some x | None \<Rightarrow> outputs xs n)"
  by (induction xs) (auto split: option.splits event.splits)

lemma outputs_quiet: "\<forall>e\<in>set es. \<not> is_SetOutput e \<Longrightarrow> outputs es n = None"
  by (induction es) (auto split: option.splits event.splits)

lemma outputs_quiet_append:
  "\<forall>e\<in>set es. \<not> is_SetOutput e \<Longrightarrow> outputs (es @ rest) n = outputs rest n"
  by (simp add: outputs_append outputs_quiet split: option.splits)

lemma failed_append: "failed (xs @ ys) = (failed xs \<or> failed ys)"
  by (simp add: failed_def)

lemma failed_Cons: "failed (e # es) = (is_SetFailed e \<or> failed es)"
  by (simp add: failed_def)

lemma failed_Nil: "\<not> failed []"
  by (simp add: failed_def)

lemma failed_quiet: "\<forall>e\<in>set es. \<not> is_SetFailed e \<Longrightarrow> \<not> failed es"
  by (simp add: failed_def list_ex_iff)

lemma delivery_requests_append:
  "delivery_requests (xs @ ys) = delivery_requests xs @ delivery_requests ys"
  by (induction xs rule: delivery_requests.induct) simp_all

lemma delivery_requests_quiet:
  "\<forall>e\<in>set es. \<not> is_delivery_request e \<Longrightarrow> delivery_requests es = []"
  by (induction es rule: delivery_requests.induct) simp_all

lemma mem_delivery_requests:
  "Request SendToAPI q \<in> set tr \<longleftrightarrow> q \<in> set (delivery_requests tr)"
  by (induction tr rule: delivery_requests.induct) auto

lemma list_ex_delivery_requests:
  "list_ex is_delivery_request tr \<longleftrightarrow> delivery_requests tr \<noteq> []"
  by (induction tr rule: delivery_requests.induct) auto

lemma summary_event_quiet:
  "summary_event e \<Longrightarrow>
     \<not> is_SetOutput e \<and> \<not> is_SetFailed e \<and> \<not> is_delivery_request e \<and> e \<noteq> Call SendToAPI
     \<and> e \<noteq> Exec cmd_remote"
  by (cases e) auto

lemma delivery_event_quiet:
  "delivery_event e \<Longrightarrow>
     \<not> is_SetOutput e \<and> \<not> is_SetFailed e \<and> \<not> is_summary_request e \<and>
     e \<noteq> Call GetCommitChanges \<and> e \<noteq> Call GenerateSummary"
  by (cases e) auto

subsection \<open>Events of the components\<close>

lemma exec_events:
  assumes "\<And>x. \<forall>e\<in>set (fst (k x)). P e" and "P (Exec cmd)"
  shows "\<forall>e\<in>set (fst (exec w cmd k)). P e"
proof (cases "execSync w cmd")
  case None
  with assms(2) show ?thesis by (simp add: exec_def)
next
  case (Some out)
  obtain es r where k: "k (trim out) = (es, r)" by (cases "k (trim out)")
  with assms(1)[of "trim out"] have "\<forall>e\<in>set es. P e" by simp
  with Some k assms(2) show ?thesis by (simp add: exec_def)
qed

lemma exec_branch_events:
  assumes "\<And>x. \<forall>e\<in>set (fst (k x)). P e" and "P (Exec cmd_branch)" and "P (Exec cmd_rev_parse)"
  shows "\<forall>e\<in>set (fst (exec_branch v w k)). P e"
proof (cases v)
  case IndexJs
  have "\<And>b. \<forall>e\<in>set (fst (if b \<noteq> [] then k b else exec w cmd_rev_parse k)). P e"
    using assms(1) exec_events[of k P cmd_rev_parse w, OF assms(1) assms(3)] by simp
  then have "\<forall>e\<in>set (fst (exec w cmd_branch (\<lambda>b. if b \<noteq> [] then k b else exec w cmd_rev_parse k))). P e"
    using assms(2) by (rule exec_events)
  with IndexJs show ?thesis by (simp add: exec_branch_def)
next
  case Part000
  show ?thesis
  proof (cases "execSync w cmd_branch")
    case None
    obtain es r where k: "exec w cmd_rev_parse k = (es, r)" by (cases "exec w cmd_rev_parse k")
    with exec_events[of k P cmd_rev_parse w, OF assms(1) assms(3)] have "\<forall>e\<in>set es. P e" by simp
    with Part000 None k assms(2) show ?thesis by (simp add: exec_branch_def)
  next
    case (Some out)
    obtain es r where k: "k (trim out) = (es, r)" by (cases "k (trim out)")
    with assms(1)[of "trim out"] have "\<forall>e\<in>set es. P e" by simp
    with Part000 Some k assms(2) show ?thesis by (simp add: exec_branch_def)
  qed
qed

lemma cmd_not_remote:
  "cmd_message \<noteq> cmd_remote" "cmd_hash \<noteq> cmd_remote" "cmd_files \<noteq> cmd_remote"
  "cmd_diff \<noteq> cmd_remote" "cmd_branch \<noteq> cmd_remote" "cmd_rev_parse \<noteq> cmd_remote"
  by (simp_all add: cmd_message_def cmd_hash_def cmd_files_def cmd_diff_def cmd_branch_def
      cmd_rev_parse_def cmd_remote_def)

lemma getCommitChanges_events: "\<forall>e\<in>set (fst (getCommitChanges v w)). summary_event e"
proof -
  let ?k5 = "\<lambda>commitMessage commitHash changedFiles diffOutput branch.
          ([] :: event list, Some \<lparr> message = commitMessage,
                      hash = commitHash,
                      shortHash = substring commitHash 0 8,
                      files = changedFiles,
                      diff = diffOutput,
                      branch = branch \<rparr>)"
  let ?k4 = "\<lambda>m h f d. exec_branch v w (?k5 m h f d)"
  let ?k3 = "\<lambda>m h f. exec w cmd_diff (?k4 m h f)"
  let ?k2 = "\<lambda>m h. exec w cmd_files (?k3 m h)"
  let ?k1 = "\<lambda>m. exec w cmd_hash (?k2 m)"
  have 4: "\<forall>e\<in>set (fst (?k4 m h f d)). summary_event e" for m h f d
    by (rule exec_branch_events) (simp_all add: cmd_not_remote)
  have 3: "\<forall>e\<in>set (fst (?k3 m h f)). summary_event e" for m h f
    by (rule exec_events) (simp_all add: cmd_not_remote 4)
  have 2: "\<forall>e\<in>set (fst (?k2 m h)). summary_event e" for m h
    by (rule exec_events) (simp_all add: cmd_not_remote 3)
  have 1: "\<forall>e\<in>set (fst (?k1 m)). summary_event e" for m
    by (rule exec_events) (simp_all add: cmd_not_remote 2)
  have 0: "\<forall>e\<in>set (fst (exec w cmd_message ?k1)). summary_event e"
    by (rule exec_events) (simp_all add: cmd_not_remote 1)
  then show ?thesis
    by (simp add: getCommitChanges_def split: prod.splits)
qed

lemma generateSummary_events: "\<forall>e\<in>set (fst (generateSummary w c k m)). summary_event e"
  by (simp add: generateSummary_def Let_def split: outcome.splits)

lemma summary_block_events:
  assumes "summary_block v w inp mdl = (es, r)"
  shows "\<forall>e\<in>set es. summary_event e"
proof (cases "changes inp = []")
  case False
  with assms show ?thesis by (simp add: summary_block_def)
next
  case True
  obtain es1 r1 where g: "getCommitChanges v w = (es1, r1)" by (cases "getCommitChanges v w")
  with getCommitChanges_events[of v w] have e1: "\<forall>e\<in>set es1. summary_event e" by simp
  show ?thesis
  proof (cases r1)
    case None
    with assms True g e1 show ?thesis by (simp add: summary_block_def)
  next
    case (Some c)
    obtain es2 r2 where s: "generateSummary w c (blackbox_api_key inp) mdl = (es2, r2)"
      by (cases "generateSummary w c (blackbox_api_key inp) mdl")
    with generateSummary_events[of w c "blackbox_api_key inp" mdl]
    have "\<forall>e\<in>set es2. summary_event e" by simp
    with assms True g e1 Some s show ?thesis
      by (cases r2) (auto simp: summary_block_def)
  qed
qed

lemma summary_block_changes:
  "changes inp \<noteq> [] \<Longrightarrow> summary_block v w inp mdl = ([], Inr (None, changes inp))"
  by (simp add: summary_block_def)

lemma repository_name_events:
  "fst (repository_name w) = (if GITHUB_REPOSITORY w \<noteq> [] then [] else [Exec cmd_remote])"
  by (simp add: repository_name_def)

lemma sendToAPI_thrown:
  "new_URL w apiUrl = Inl t \<Longrightarrow>
     sendToAPI v w summary apiKey apiUrl c = ([Call SendToAPI], Inl (DeliveryThrown (thrown_message t)))"
  by (simp add: sendToAPI_def)

lemma sendToAPI_sent:
  "new_URL w apiUrl = Inr u \<Longrightarrow>
     sendToAPI v w summary apiKey apiUrl c =
       (Call SendToAPI # fst (repository_name w) @
          (case send w (deliveryRequest v w u summary (snd (repository_name w)) apiKey c) of
             Thrown t \<Rightarrow> []
           | _ \<Rightarrow> [Request SendToAPI (deliveryRequest v w u summary (snd (repository_name w)) apiKey c)]),
        case send w (deliveryRequest v w u summary (snd (repository_name w)) apiKey c) of
          Thrown t \<Rightarrow> Inl (DeliveryThrown (thrown_message t))
        | NetError m \<Rightarrow> Inl (DeliveryRequestError m)
        | NetTimeout \<Rightarrow> Inl DeliveryTimeout
        | NetResponse status hs data \<Rightarrow> Inr \<lparr> statusCode = status, headers = hs, body = data \<rparr>)"
  by (simp add: sendToAPI_def Let_def split: prod.splits outcome.splits)

lemma sendToAPI_events:
  assumes "sendToAPI v w summary apiKey apiUrl c = (es, r)"
  shows "\<forall>e\<in>set es. delivery_event e"
proof (cases "new_URL w apiUrl")
  case (Inl t)
  with assms show ?thesis by (auto simp: sendToAPI_thrown)
next
  case (Inr u)
  with assms show ?thesis
    by (auto simp: sendToAPI_sent repository_name_events split: if_splits outcome.splits)
qed

lemma sendToAPI_call:
  "sendToAPI v w summary apiKey apiUrl c = (es, r) \<Longrightarrow> Call SendToAPI \<in> set es"
  by (cases "new_URL w apiUrl") (auto simp: sendToAPI_thrown sendToAPI_sent)

lemma sendToAPI_requests:
  "sendToAPI v w summary apiKey apiUrl c = (es, r) \<Longrightarrow>
     delivery_requests es =
       (case new_URL w apiUrl of
          Inl t \<Rightarrow> []
        | Inr u \<Rightarrow>
            (case send w (deliveryRequest v w u summary (snd (repository_name w)) apiKey c) of
               Thrown t \<Rightarrow> []
             | _ \<Rightarrow> [(deliveryRequest v w u summary (snd (repository_name w)) apiKey c)]))"
  by (cases "new_URL w apiUrl")
     (auto simp: sendToAPI_thrown sendToAPI_sent repository_name_events delivery_requests_append
        split: outcome.splits)

lemma sendToAPI_result:
  "sendToAPI v w summary apiKey apiUrl c = (es, r) \<Longrightarrow>
     r = (case new_URL w apiUrl of
            Inl t \<Rightarrow> Inl (DeliveryThrown (thrown_message t))
          | Inr u \<Rightarrow>
             (case send w (deliveryRequest v w u summary (snd (repository_name w)) apiKey c) of
                Thrown t \<Rightarrow> Inl (DeliveryThrown (thrown_message t))
              | NetError m \<Rightarrow> Inl (DeliveryRequestError m)
              | NetTimeout \<Rightarrow> Inl DeliveryTimeout
              | NetResponse status hs data \<Rightarrow> Inr \<lparr> statusCode = status, headers = hs, body = data \<rparr>))"
  by (cases "new_URL w apiUrl") (auto simp: sendToAPI_thrown sendToAPI_sent)

subsection \<open>The five ways a run goes\<close>

lemma run_cases [case_names NoKey SummaryFailed Skipped DeliveryFailed Delivered]:
  obtains
    (NoKey) "blackbox_api_key inp = []"
      "run v w inp = [SetFailed (error_message MissingBlackboxKey)]"
  | (SummaryFailed) es e where "blackbox_api_key inp \<noteq> []"
      "summary_block v w inp (model_or_default inp) = (es, Inl e)"
      "run v w inp = es @ [SetFailed (error_message e)]"
  | (Skipped) es c s where "blackbox_api_key inp \<noteq> []"
      "summary_block v w inp (model_or_default inp) = (es, Inr (c, s))"
      "\<not> hasApiConfig v inp"
      "run v w inp = es @ [SetOutput ''summary'' s,
         SetOutput ''response'' ''No API configured - summary generated only'',
         SetOutput ''status'' ''200'']"
  | (DeliveryFailed) es c s es' e where "blackbox_api_key inp \<noteq> []"
      "summary_block v w inp (model_or_default inp) = (es, Inr (c, s))"
      "hasApiConfig v inp"
      "sendToAPI v w s (api_key inp) (api_url inp) c = (es', Inl e)"
      "run v w inp = es @ SetOutput ''summary'' s # es' @ [SetFailed (error_message e)]"
  | (Delivered) es c s es' r where "blackbox_api_key inp \<noteq> []"
      "summary_block v w inp (model_or_default inp) = (es, Inr (c, s))"
      "hasApiConfig v inp"
      "sendToAPI v w s (api_key inp) (api_url inp) c = (es', Inr r)"
      "run v w inp = es @ SetOutput ''summary'' s # es' @
         [SetOutput ''response'' (body r), SetOutput ''status'' (toString (statusCode r))]"
proof (cases "blackbox_api_key inp = []")
  case True
  then show ?thesis using NoKey by (simp add: run_def)
next
  case key: False
  obtain es r where sb: "summary_block v w inp (model_or_default inp) = (es, r)"
    by (cases "summary_block v w inp (model_or_default inp)")
  show ?thesis
  proof (cases r)
    case (Inl e)
    with key sb show ?thesis using SummaryFailed by (simp add: run_def)
  next
    case (Inr cs)
    obtain c s where cs: "cs = (c, s)" by (cases cs)
    show ?thesis
    proof (cases "hasApiConfig v inp")
      case False
      with key sb Inr cs show ?thesis using Skipped by (simp add: run_def delivery_block_def)
    next
      case True
      obtain es' r' where sa: "sendToAPI v w s (api_key inp) (api_url inp) c = (es', r')"
        by (cases "sendToAPI v w s (api_key inp) (api_url inp) c")
      show ?thesis
      proof (cases r')
        case (Inl e)
        with key sb Inr cs True sa show ?thesis using DeliveryFailed
          by (simp add: run_def delivery_block_def)
      next
        case r: (Inr resp)
        with key sb Inr cs True sa show ?thesis using Delivered
          by (simp add: run_def delivery_block_def)
      qed
    qed
  qed
qed

lemma summary_events_quiet:
  assumes "\<forall>e\<in>set es. summary_event e"
  shows "\<forall>e\<in>set es. \<not> is_SetOutput e" "\<forall>e\<in>set es. \<not> is_SetFailed e"
    "\<forall>e\<in>set es. \<not> is_delivery_request e" "Call SendToAPI \<notin> set es"
    "Exec cmd_remote \<notin> set es"
  using assms summary_event_quiet by blast+

lemma delivery_events_quiet:
  assumes "\<forall>e\<in>set es. delivery_event e"
  shows "\<forall>e\<in>set es. \<not> is_SetOutput e" "\<forall>e\<in>set es. \<not> is_SetFailed e"
    "\<forall>e\<in>set es. \<not> is_summary_request e" "Call GetCommitChanges \<notin> set es"
    "Call GenerateSummary \<notin> set es"
  using assms delivery_event_quiet by blast+

lemma split_before:
  assumes "xs @ y # ys = pre @ e # post" and "e \<notin> set xs" and "e \<noteq> y"
  shows "y \<in> set pre"
proof -
  from assms(1) obtain us where
    "(xs = pre @ us \<and> us @ y # ys = e # post) \<or> (xs @ us = pre \<and> y # ys = us @ e # post)"
    by (auto simp: append_eq_append_conv2)
  then show ?thesis
  proof
    assume a: "xs = pre @ us \<and> us @ y # ys = e # post"
    show ?thesis
    proof (cases us)
      case Nil
      with a assms(3) show ?thesis by simp
    next
      case (Cons u us')
      with a have "e \<in> set xs" by auto
      with assms(2) show ?thesis by simp
    qed
  next
    assume a: "xs @ us = pre \<and> y # ys = us @ e # post"
    show ?thesis
    proof (cases us)
      case Nil
      with a assms(3) show ?thesis by simp
    next
      case (Cons u us')
      with a show ?thesis by auto
    qed
  qed
qed

text \<open>What a trace of each kind shows.\<close>

lemma trace_failed_early:
  assumes "\<forall>e\<in>set es. summary_event e"
  shows "failed (es @ [SetFailed m])" "outputs (es @ [SetFailed m]) n = None"
    "delivery_requests (es @ [SetFailed m]) = []" "Call SendToAPI \<notin> set (es @ [SetFailed m])"
  using summary_events_quiet[OF assms]
  by (simp_all add: failed_append failed_Cons outputs_quiet_append delivery_requests_append
      delivery_requests_quiet)

lemma trace_skipped:
  fixes s b t :: string
  assumes "\<forall>e\<in>set es. summary_event e"
  defines "tr \<equiv> es @ [SetOutput ''summary'' s, SetOutput ''response'' b, SetOutput ''status'' t]"
  shows "\<not> failed tr" "outputs tr ''summary'' = Some s" "outputs tr ''response'' = Some b"
    "outputs tr ''status'' = Some t" "delivery_requests tr = []" "Call SendToAPI \<notin> set tr"
  using summary_events_quiet[OF assms(1)] unfolding tr_def
  by (simp_all add: failed_append failed_Cons failed_Nil failed_quiet outputs_quiet_append
      delivery_requests_append delivery_requests_quiet)

lemma trace_delivery_failed:
  fixes s m :: string
  assumes "\<forall>e\<in>set es. summary_event e" and "\<forall>e\<in>set es'. delivery_event e"
  defines "tr \<equiv> es @ SetOutput ''summary'' s # es' @ [SetFailed m]"
  shows "failed tr" "outputs tr ''summary'' = Some s" "outputs tr ''response'' = None"
    "outputs tr ''status'' = None" "delivery_requests tr = delivery_requests es'"
proof -
  note q = summary_events_quiet[OF assms(1)] delivery_events_quiet[OF assms(2)]
  have o: "outputs (es' @ [SetFailed m]) n = None" for n
    using q by (simp add: outputs_quiet_append)
  show "failed tr" unfolding tr_def by (simp add: failed_append failed_Cons)
  show "outputs tr ''summary'' = Some s" unfolding tr_def
    using q by (simp add: outputs_quiet_append o)
  show "outputs tr ''response'' = None" unfolding tr_def
    using q by (simp add: outputs_quiet_append o)
  show "outputs tr ''status'' = None" unfolding tr_def
    using q by (simp add: outputs_quiet_append o)
  show "delivery_requests tr = delivery_requests es'" unfolding tr_def
    using q by (simp add: delivery_requests_append delivery_requests_quiet)
qed

lemma trace_delivered:
  fixes s b t :: string
  assumes "\<forall>e\<in>set es. summary_event e" and "\<forall>e\<in>set es'. delivery_event e"
  defines "tr \<equiv> es @ SetOutput ''summary'' s # es' @
     [SetOutput ''response'' b, SetOutput ''status'' t]"
  shows "\<not> failed tr" "outputs tr ''summary'' = Some s" "outputs tr ''response'' = Some b"
    "outputs tr ''status'' = Some t" "delivery_requests tr = delivery_requests es'"
proof -
  note q = summary_events_quiet[OF assms(1)] delivery_events_quiet[OF assms(2)]
  have o: "outputs (es' @ [SetOutput ''response'' b, SetOutput ''status'' t]) n =
      (if n = ''status'' then Some t else if n = ''response'' then Some b else None)" for n
    using q by (simp add: outputs_quiet_append)
  show "\<not> failed tr" unfolding tr_def
    using q by (simp add: failed_append failed_Cons failed_Nil failed_quiet)
  show "outputs tr ''summary'' = Some s" unfolding tr_def
    using q by (simp add: outputs_quiet_append o)
  show "outputs tr ''response'' = Some b" unfolding tr_def
    using q by (simp add: outputs_quiet_append o)
  show "outputs tr ''status'' = Some t" unfolding tr_def
    using q by (simp add: outputs_quiet_append o)
  show "delivery_requests tr = delivery_requests es'" unfolding tr_def
    using q by (simp add: delivery_requests_append delivery_requests_quiet)
qed

lemma summary_block_result:
  "snd (summary_block v w inp mdl) =
     (if changes inp \<noteq> [] then Inr (None, changes inp)
      else case snd (getCommitChanges v w) of
             None \<Rightarrow> Inl NoCommitData
           | Some c \<Rightarrow>
               (case snd (generateSummary w c (blackbox_api_key inp) mdl) of
                  Inl e \<Rightarrow> Inl e
                | Inr s \<Rightarrow> Inr (Some c, s)))"
  by (auto simp: summary_block_def split: prod.splits option.splits sum.splits)

lemma exitCode_failed: "exitCode tr = (if failed tr then 1 else 0)"
  by (simp add: exitCode_def)

text \<open>The delivery request of a run, when the Delivery Client was called.\<close>

lemma delivered_request:
  assumes "sendToAPI v w s k a c = (es', r)" and "q \<in> set (delivery_requests es')"
  shows "\<exists>u. new_URL w a = Inr u \<and> q = deliveryRequest v w u s (snd (repository_name w)) k c \<and>
     (\<forall>t. send w q \<noteq> Thrown t) \<and> delivery_requests es' = [q] \<and>
     r = (case send w q of
            Thrown t \<Rightarrow> Inl (DeliveryThrown (thrown_message t))
          | NetError m \<Rightarrow> Inl (DeliveryRequestError m)
          | NetTimeout \<Rightarrow> Inl DeliveryTimeout
          | NetResponse status hs data \<Rightarrow> Inr \<lparr> statusCode = status, headers = hs, body = data \<rparr>)"
proof (cases "new_URL w a")
  case (Inl t)
  with assms sendToAPI_requests[OF assms(1)] show ?thesis by simp
next
  case (Inr u)
  let ?q = "deliveryRequest v w u s (snd (repository_name w)) k c"
  from assms(2) sendToAPI_requests[OF assms(1)] Inr
  have 1: "q = ?q" and 2: "\<forall>t. send w ?q \<noteq> Thrown t" and 3: "delivery_requests es' = [?q]"
    by (cases "send w ?q"; simp)+
  with Inr sendToAPI_result[OF assms(1)] show ?thesis by simp
qed

lemma run_ordering:
  assumes "run v w inp = pre @ Request SendToAPI q # post"
  shows "\<exists>s. SetOutput ''summary'' s \<in> set pre"
proof -
  have mem: "q \<in> set (delivery_requests (run v w inp))"
    using assms by (simp add: mem_delivery_requests[symmetric])
  show ?thesis
  proof (cases rule: run_cases[of inp v w])
    case NoKey
    with mem show ?thesis by simp
  next
    case (SummaryFailed es e)
    with mem trace_failed_early(3)[OF summary_block_events[OF SummaryFailed(2)]]
    show ?thesis by simp
  next
    case (Skipped es c s)
    with mem trace_skipped(5)[OF summary_block_events[OF Skipped(2)]]
    show ?thesis by simp
  next
    case (DeliveryFailed es c s es' e)
    have "Request SendToAPI q \<notin> set es"
      using summary_block_events[OF DeliveryFailed(2)] by auto
    with assms DeliveryFailed(5) have "SetOutput ''summary'' s \<in> set pre"
      by (intro split_before[of es _ _ pre "Request SendToAPI q" post]) simp_all
    then show ?thesis by blast
  next
    case (Delivered es c s es' r)
    have "Request SendToAPI q \<notin> set es"
      using summary_block_events[OF Delivered(2)] by auto
    with assms Delivered(5) have "SetOutput ''summary'' s \<in> set pre"
      by (intro split_before[of es _ _ pre "Request SendToAPI q" post]) simp_all
    then show ?thesis by blast
  qed
qed

lemma run_summary_published:
  assumes "blackbox_api_key inp \<noteq> []"
    and "summary_block v w inp (model_or_default inp) = (es, Inr (c, s))"
  shows "outputs (run v w inp) ''summary'' = Some s"
proof (cases rule: run_cases[of inp v w])
  case NoKey
  with assms show ?thesis by simp
next
  case (SummaryFailed es e)
  with assms show ?thesis by simp
next
  case (Skipped es1 c1 s1)
  with assms trace_skipped(2)[OF summary_block_events[OF Skipped(2)]] show ?thesis by simp
next
  case (DeliveryFailed es1 c1 s1 es' e)
  with assms trace_delivery_failed(2)[OF summary_block_events[OF DeliveryFailed(2)]
      sendToAPI_events[OF DeliveryFailed(4)]]
  show ?thesis by simp
next
  case (Delivered es1 c1 s1 es' r)
  with assms trace_delivered(2)[OF summary_block_events[OF Delivered(2)]
      sendToAPI_events[OF Delivered(4)]]
  show ?thesis by simp
qed

lemma run_delivery_lost:
  assumes "Request SendToAPI q \<in> set (run v w inp)"
    and "send w q = NetTimeout \<or> (\<exists>m. send w q = NetError m)"
  shows "failed (run v w inp) \<and> exitCode (run v w inp) = 1 \<and>
     outputs (run v w inp) ''summary'' \<noteq> None \<and>
     outputs (run v w inp) ''response'' = None \<and> outputs (run v w inp) ''status'' = None"
proof -
  have mem: "q \<in> set (delivery_requests (run v w inp))"
    using assms(1) by (simp add: mem_delivery_requests[symmetric])
  show ?thesis
  proof (cases rule: run_cases[of inp v w])
    case NoKey
    with mem show ?thesis by simp
  next
    case (SummaryFailed es e)
    with mem trace_failed_early(3)[OF summary_block_events[OF SummaryFailed(2)]]
    show ?thesis by simp
  next
    case (Skipped es c s)
    with mem trace_skipped(5)[OF summary_block_events[OF Skipped(2)]]
    show ?thesis by simp
  next
    case (DeliveryFailed es c s es' e)
    note t = trace_delivery_failed[OF summary_block_events[OF DeliveryFailed(2)]
        sendToAPI_events[OF DeliveryFailed(4)], of s "error_message e"]
    from t DeliveryFailed(5) show ?thesis by (simp add: exitCode_failed)
  next
    case (Delivered es c s es' r)
    note t = trace_delivered[OF summary_block_events[OF Delivered(2)]
        sendToAPI_events[OF Delivered(4)], of s "body r" "toString (statusCode r)"]
    from mem t(5) Delivered(5) have "q \<in> set (delivery_requests es')" by simp
    from delivered_request[OF Delivered(4) this] assms(2) show ?thesis by auto
  qed
qed

subsection \<open>The concrete surroundings\<close>

lemma demo_repository: "repository_name (demo_world d) = ([Exec cmd_remote], ''owner/repo'')"
  by (simp add: repository_name_def demo_world_def match_here_def trim_def isWhiteSpace_def
      cmd_message_def cmd_hash_def cmd_files_def cmd_diff_def cmd_branch_def cmd_remote_def)

lemma demo_send:
  "CHR 0x0A \<notin> set k \<Longrightarrow>
     send (demo_world d) (deliveryRequest v (demo_world d) demo_url s r k c) = d"
  by (cases v)
     (simp_all add: demo_world_def deliveryRequest_def deliveryHeaders_def demo_url_def Let_def)

lemma demo_key_plain: "CHR 0x0A \<notin> set (api_key demo_inputs)"
  by (simp add: demo_inputs_def)

lemma demo_new_URL: "new_URL (demo_world d) (api_url demo_inputs) = Inr demo_url"
  by (simp add: demo_world_def demo_inputs_def)

lemma demo_sendToAPI:
  "CHR 0x0A \<notin> set k \<Longrightarrow>
     sendToAPI v (demo_world d) s k (api_url demo_inputs) c =
       (Call SendToAPI # Exec cmd_remote #
          (case d of
             Thrown t \<Rightarrow> []
           | _ \<Rightarrow> [Request SendToAPI
                 (deliveryRequest v (demo_world d) demo_url s ''owner/repo'' k c)]),
        case d of
          Thrown t \<Rightarrow> Inl (DeliveryThrown (thrown_message t))
        | NetError m \<Rightarrow> Inl (DeliveryRequestError m)
        | NetTimeout \<Rightarrow> Inl DeliveryTimeout
        | NetResponse status hs data \<Rightarrow> Inr \<lparr> statusCode = status, headers = hs, body = data \<rparr>)"
  by (cases d) (simp_all add: sendToAPI_sent[OF demo_new_URL] demo_repository demo_send)

lemma demo_run_timeout:
  "run v (demo_world NetTimeout) demo_inputs =
     [SetOutput ''summary'' ''Custom changes data here'', Call SendToAPI, Exec cmd_remote,
      Request SendToAPI (deliveryRequest v (demo_world NetTimeout) demo_url
        ''Custom changes data here'' ''owner/repo'' ''secret'' None),
      SetFailed ''Request timeout'']"
proof -
  have i: "changes demo_inputs = ''Custom changes data here''" "api_key demo_inputs = ''secret''"
    "blackbox_api_key demo_inputs \<noteq> []" "hasApiConfig v demo_inputs"
    by (cases v; simp add: demo_inputs_def hasApiConfig_def)+
  show ?thesis
    by (simp add: run_def summary_block_def delivery_block_def i demo_sendToAPI)
qed

lemma demo_commit:
  "getCommitChanges IndexJs (demo_world d) =
     ([Call GetCommitChanges, Exec cmd_message, Exec cmd_hash, Exec cmd_files, Exec cmd_diff,
       Exec cmd_branch],
      Some \<lparr> message = ''Fix the parser'',
             hash = ''0123456789abcdef0123456789abcdef01234567'',
             shortHash = ''01234567'',
             files = ''M index.js'',
             diff = ''index.js'',
             branch = ''main'' \<rparr>)"
  by (simp add: getCommitChanges_def exec_def exec_branch_def demo_world_def trim_def
      isWhiteSpace_def substring_def
      cmd_message_def cmd_hash_def cmd_files_def cmd_diff_def cmd_branch_def cmd_remote_def)

subsection \<open>What a run shows, by its inputs and surroundings\<close>

lemma run_request:
  assumes "q \<in> set (delivery_requests (run v w inp))"
  shows "\<exists>es c s u. blackbox_api_key inp \<noteq> [] \<and>
     summary_block v w inp (model_or_default inp) = (es, Inr (c, s)) \<and> hasApiConfig v inp \<and>
     new_URL w (api_url inp) = Inr u \<and>
     q = deliveryRequest v w u s (snd (repository_name w)) (api_key inp) c \<and>
     (\<forall>t. send w q \<noteq> Thrown t) \<and>
     delivery_requests (run v w inp) = [q]"
proof (cases rule: run_cases[of inp v w])
  case NoKey
  with assms show ?thesis by simp
next
  case (SummaryFailed es e)
  with assms trace_failed_early(3)[OF summary_block_events[OF SummaryFailed(2)]]
  show ?thesis by simp
next
  case (Skipped es c s)
  with assms trace_skipped(5)[OF summary_block_events[OF Skipped(2)]]
  show ?thesis by simp
next
  case (DeliveryFailed es c s es' e)
  note t = trace_delivery_failed[OF summary_block_events[OF DeliveryFailed(2)]
      sendToAPI_events[OF DeliveryFailed(4)], of s "error_message e"]
  from assms t(5) DeliveryFailed(5) have eq: "delivery_requests (run v w inp) = delivery_requests es'"
    and mem: "q \<in> set (delivery_requests es')" by simp_all
  from delivered_request[OF DeliveryFailed(4) mem] obtain u where
    u: "new_URL w (api_url inp) = Inr u"
      "q = deliveryRequest v w u s (snd (repository_name w)) (api_key inp) c"
      "\<forall>t. send w q \<noteq> Thrown t" "delivery_requests es' = [q]" by blast
  with DeliveryFailed eq show ?thesis by auto
next
  case (Delivered es c s es' r)
  note t = trace_delivered[OF summary_block_events[OF Delivered(2)]
      sendToAPI_events[OF Delivered(4)], of s "body r" "toString (statusCode r)"]
  from assms t(5) Delivered(5) have eq: "delivery_requests (run v w inp) = delivery_requests es'"
    and mem: "q \<in> set (delivery_requests es')" by simp_all
  from delivered_request[OF Delivered(4) mem] obtain u where
    u: "new_URL w (api_url inp) = Inr u"
      "q = deliveryRequest v w u s (snd (repository_name w)) (api_key inp) c"
      "\<forall>t. send w q \<noteq> Thrown t" "delivery_requests es' = [q]" by blast
  with Delivered eq show ?thesis by auto
qed

lemma run_called:
  "Call SendToAPI \<in> set (run v w inp) \<longleftrightarrow>
     blackbox_api_key inp \<noteq> [] \<and> hasApiConfig v inp \<and>
     (\<exists>c s. snd (summary_block v w inp (model_or_default inp)) = Inr (c, s))"
proof (cases rule: run_cases[of inp v w])
  case NoKey
  then show ?thesis by simp
next
  case (SummaryFailed es e)
  with trace_failed_early(4)[OF summary_block_events[OF SummaryFailed(2)]]
  show ?thesis by simp
next
  case (Skipped es c s)
  with trace_skipped(6)[OF summary_block_events[OF Skipped(2)]]
  show ?thesis by simp
next
  case (DeliveryFailed es c s es' e)
  with sendToAPI_call[OF DeliveryFailed(4)] show ?thesis by simp
next
  case (Delivered es c s es' r)
  with sendToAPI_call[OF Delivered(4)] show ?thesis by simp
qed

lemma run_summary_output:
  "outputs (run v w inp) ''summary'' \<noteq> None \<longleftrightarrow>
     blackbox_api_key inp \<noteq> [] \<and>
     (\<exists>c s. snd (summary_block v w inp (model_or_default inp)) = Inr (c, s))"
proof (cases rule: run_cases[of inp v w])
  case NoKey
  then show ?thesis by simp
next
  case (SummaryFailed es e)
  with trace_failed_early(2)[OF summary_block_events[OF SummaryFailed(2)]]
  show ?thesis by simp
next
  case (Skipped es c s)
  with trace_skipped(2)[OF summary_block_events[OF Skipped(2)]]
  show ?thesis by simp
next
  case (DeliveryFailed es c s es' e)
  with trace_delivery_failed(2)[OF summary_block_events[OF DeliveryFailed(2)]
      sendToAPI_events[OF DeliveryFailed(4)]]
  show ?thesis by simp
next
  case (Delivered es c s es' r)
  with trace_delivered(2)[OF summary_block_events[OF Delivered(2)]
      sendToAPI_events[OF Delivered(4)]]
  show ?thesis by simp
qed

lemma run_requests_iff:
  "delivery_requests (run v w inp) \<noteq> [] \<longleftrightarrow>
     Call SendToAPI \<in> set (run v w inp) \<and>
     (\<exists>u c s. new_URL w (api_url inp) = Inr u \<and>
        snd (summary_block v w inp (model_or_default inp)) = Inr (c, s) \<and>
        (\<forall>t. send w (deliveryRequest v w u s (snd (repository_name w)) (api_key inp) c) \<noteq> Thrown t))"
proof (cases rule: run_cases[of inp v w])
  case NoKey
  then show ?thesis by simp
next
  case (SummaryFailed es e)
  with trace_failed_early(3,4)[OF summary_block_events[OF SummaryFailed(2)]]
  show ?thesis by simp
next
  case (Skipped es c s)
  with trace_skipped(5,6)[OF summary_block_events[OF Skipped(2)]]
  show ?thesis by simp
next
  case (DeliveryFailed es c s es' e)
  note t = trace_delivery_failed(5)[OF summary_block_events[OF DeliveryFailed(2)]
      sendToAPI_events[OF DeliveryFailed(4)], of s "error_message e"]
  have "Call SendToAPI \<in> set (run v w inp)"
    using DeliveryFailed(5) sendToAPI_call[OF DeliveryFailed(4)] by simp
  with t DeliveryFailed(2,5) sendToAPI_requests[OF DeliveryFailed(4)] show ?thesis
    by (auto split: sum.splits outcome.splits)
next
  case (Delivered es c s es' r)
  note t = trace_delivered(5)[OF summary_block_events[OF Delivered(2)]
      sendToAPI_events[OF Delivered(4)], of s "body r" "toString (statusCode r)"]
  have "Call SendToAPI \<in> set (run v w inp)"
    using Delivered(5) sendToAPI_call[OF Delivered(4)] by simp
  with t Delivered(2,5) sendToAPI_requests[OF Delivered(4)] show ?thesis
    by (auto split: sum.splits outcome.splits)
qed

lemma run_responded:
  assumes "Request SendToAPI q \<in> set (run v w inp)"
    and "send w q = NetResponse status hs data"
  shows "\<not> failed (run v w inp) \<and> exitCode (run v w inp) = 0 \<and>
     outputs (run v w inp) ''status'' = Some (toString status) \<and>
     outputs (run v w inp) ''response'' = Some data"
proof -
  have mem: "q \<in> set (delivery_requests (run v w inp))"
    using assms(1) by (simp add: mem_delivery_requests[symmetric])
  show ?thesis
  proof (cases rule: run_cases[of inp v w])
    case NoKey
    with mem show ?thesis by simp
  next
    case (SummaryFailed es e)
    with mem trace_failed_early(3)[OF summary_block_events[OF SummaryFailed(2)]]
    show ?thesis by simp
  next
    case (Skipped es c s)
    with mem trace_skipped(5)[OF summary_block_events[OF Skipped(2)]]
    show ?thesis by simp
  next
    case (DeliveryFailed es c s es' e)
    note t = trace_delivery_failed[OF summary_block_events[OF DeliveryFailed(2)]
        sendToAPI_events[OF DeliveryFailed(4)], of s "error_message e"]
    from mem t(5) DeliveryFailed(5) have "q \<in> set (delivery_requests es')" by simp
    from delivered_request[OF DeliveryFailed(4) this] assms(2) show ?thesis by auto
  next
    case (Delivered es c s es' r)
    note t = trace_delivered[OF summary_block_events[OF Delivered(2)]
        sendToAPI_events[OF Delivered(4)], of s "body r" "toString (statusCode r)"]
    from mem t(5) Delivered(5) have "q \<in> set (delivery_requests es')" by simp
    from delivered_request[OF Delivered(4) this] assms(2)
    have "r = \<lparr> statusCode = status, headers = hs, body = data \<rparr>" by auto
    with t Delivered(5) show ?thesis by (simp add: exitCode_failed)
  qed
qed

lemma run_failed_iff:
  "failed (run v w inp) \<longleftrightarrow>
     blackbox_api_key inp = [] \<or>
     (\<exists>e. snd (summary_block v w inp (model_or_default inp)) = Inl e) \<or>
     (Call SendToAPI \<in> set (run v w inp) \<and>
        (isl (new_URL w (api_url inp)) \<or>
         (\<exists>u c s t. new_URL w (api_url inp) = Inr u \<and>
            snd (summary_block v w inp (model_or_default inp)) = Inr (c, s) \<and>
            send w (deliveryRequest v w u s (snd (repository_name w)) (api_key inp) c) = Thrown t) \<or>
         (\<exists>q. Request SendToAPI q \<in> set (run v w inp) \<and>
              (send w q = NetTimeout \<or> (\<exists>m. send w q = NetError m)))))"
proof (cases rule: run_cases[of inp v w])
  case NoKey
  then show ?thesis by (simp add: failed_Cons)
next
  case (SummaryFailed es e)
  with trace_failed_early(1)[OF summary_block_events[OF SummaryFailed(2)]]
  show ?thesis by simp
next
  case (Skipped es c s)
  with trace_skipped(1,6)[OF summary_block_events[OF Skipped(2)]]
  show ?thesis by simp
next
  case (DeliveryFailed es c s es' e)
  note t = trace_delivery_failed[OF summary_block_events[OF DeliveryFailed(2)]
      sendToAPI_events[OF DeliveryFailed(4)], of s "error_message e"]
  have called: "Call SendToAPI \<in> set (run v w inp)"
    using DeliveryFailed(5) sendToAPI_call[OF DeliveryFailed(4)] by simp
  have "isl (new_URL w (api_url inp)) \<or>
     (\<exists>u c s t. new_URL w (api_url inp) = Inr u \<and>
        snd (summary_block v w inp (model_or_default inp)) = Inr (c, s) \<and>
        send w (deliveryRequest v w u s (snd (repository_name w)) (api_key inp) c) = Thrown t) \<or>
     (\<exists>q. Request SendToAPI q \<in> set (run v w inp) \<and>
          (send w q = NetTimeout \<or> (\<exists>m. send w q = NetError m)))"
  proof (cases "new_URL w (api_url inp)")
    case (Inl t)
    then show ?thesis by simp
  next
    case (Inr u)
    let ?q = "(deliveryRequest v w u s (snd (repository_name w)) (api_key inp) c)"
    show ?thesis
    proof (cases "\<exists>t. send w ?q = Thrown t")
      case True
      with Inr DeliveryFailed(2) show ?thesis by auto
    next
      case False
      with sendToAPI_requests[OF DeliveryFailed(4)] Inr t(5) DeliveryFailed(5)
      have "Request SendToAPI ?q \<in> set (run v w inp)"
        by (cases "send w ?q") (simp_all add: mem_delivery_requests)
      moreover from sendToAPI_result[OF DeliveryFailed(4)] Inr False
      have "send w ?q = NetTimeout \<or> (\<exists>m. send w ?q = NetError m)"
        by (cases "send w ?q") simp_all
      ultimately show ?thesis by blast
    qed
  qed
  with called t(1) DeliveryFailed(5) show ?thesis by simp
next
  case (Delivered es c s es' r)
  note t = trace_delivered[OF summary_block_events[OF Delivered(2)]
      sendToAPI_events[OF Delivered(4)], of s "body r" "toString (statusCode r)"]
  have nf: "\<not> failed (run v w inp)" using t(1) Delivered(5) by simp
  have "\<not> isl (new_URL w (api_url inp))"
    using sendToAPI_result[OF Delivered(4)] by (cases "new_URL w (api_url inp)") simp_all
  moreover have "\<not> (\<exists>u c s t. new_URL w (api_url inp) = Inr u \<and>
        snd (summary_block v w inp (model_or_default inp)) = Inr (c, s) \<and>
        send w (deliveryRequest v w u s (snd (repository_name w)) (api_key inp) c) = Thrown t)"
    using sendToAPI_result[OF Delivered(4)] Delivered(2)
    by (auto split: sum.splits outcome.splits)
  moreover have "\<not> (\<exists>q. Request SendToAPI q \<in> set (run v w inp) \<and>
          (send w q = NetTimeout \<or> (\<exists>m. send w q = NetError m)))"
    using run_delivery_lost[of q v w inp for q] nf by blast
  ultimately show ?thesis using nf Delivered(1,2) by simp
qed

lemma summary_block_fails_iff:
  "(\<exists>e. snd (summary_block v w inp mdl) = Inl e) \<longleftrightarrow>
     changes inp = [] \<and>
     (snd (getCommitChanges v w) = None \<or>
      (\<exists>c e. snd (getCommitChanges v w) = Some c \<and>
         snd (generateSummary w c (blackbox_api_key inp) mdl) = Inl e))"
  by (auto simp: summary_block_result split: option.splits sum.splits)

lemma toString_404: "toString 404 = ''404''"
  by code_simp

lemma demo_run:
  assumes "changes inp = changes demo_inputs" and "blackbox_api_key inp = ''bb-key''"
    and "api_url inp = api_url demo_inputs" and "hasApiConfig v inp"
    and "CHR 0x0A \<notin> set (api_key inp)"
  shows "run v (demo_world d) inp =
     [SetOutput ''summary'' ''Custom changes data here'', Call SendToAPI, Exec cmd_remote] @
     (case d of
        Thrown t \<Rightarrow> [SetFailed (thrown_message t)]
      | NetError m \<Rightarrow>
          [Request SendToAPI (deliveryRequest v (demo_world d) demo_url
             ''Custom changes data here'' ''owner/repo'' (api_key inp) None),
           SetFailed m]
      | NetTimeout \<Rightarrow>
          [Request SendToAPI (deliveryRequest v (demo_world d) demo_url
             ''Custom changes data here'' ''owner/repo'' (api_key inp) None),
           SetFailed ''Request timeout'']
      | NetResponse status hs data \<Rightarrow>
          [Request SendToAPI (deliveryRequest v (demo_world d) demo_url
             ''Custom changes data here'' ''owner/repo'' (api_key inp) None),
           SetOutput ''response'' data, SetOutput ''status'' (toString status)])"
proof -
  have c: "changes inp = ''Custom changes data here''"
    using assms(1) by (simp add: demo_inputs_def)
  show ?thesis
    by (cases d) (simp_all add: run_def summary_block_def delivery_block_def c assms(2,3,4)
        demo_sendToAPI[OF assms(5)])
qed

lemma demo_run_without_key:
  "run v w inputs_without_key = [SetFailed ''BlackBox API key is required'']"
  by (simp add: run_def inputs_without_key_def demo_inputs_def)

lemma demo_run_bad_url:
  "run IndexJs (demo_world d) inputs_bad_url =
     [SetOutput ''summary'' ''Custom changes data here'', Call SendToAPI,
      SetFailed ''Invalid URL'']"
  by (simp add: run_def summary_block_def delivery_block_def hasApiConfig_def sendToAPI_def
      inputs_bad_url_def demo_inputs_def demo_world_def)

lemma demo_send_line_break:
  "send (demo_world d) (deliveryRequest IndexJs (demo_world d) demo_url s r
     (api_key inputs_key_with_line_break) c) = Thrown invalid_header"
  by (simp add: demo_world_def deliveryRequest_def deliveryHeaders_def demo_url_def Let_def
      inputs_key_with_line_break_def)

lemma demo_run_line_break:
  "run IndexJs (demo_world d) inputs_key_with_line_break =
     [SetOutput ''summary'' ''Custom changes data here'', Call SendToAPI, Exec cmd_remote,
      SetFailed (thrown_message invalid_header)]"
proof -
  have i: "changes inputs_key_with_line_break = ''Custom changes data here''"
    "blackbox_api_key inputs_key_with_line_break \<noteq> []"
    "hasApiConfig IndexJs inputs_key_with_line_break"
    "api_url inputs_key_with_line_break = api_url demo_inputs"
    by (simp_all add: inputs_key_with_line_break_def demo_inputs_def hasApiConfig_def)
  show ?thesis
    by (simp add: run_def summary_block_def delivery_block_def i
        sendToAPI_sent[OF demo_new_URL] demo_repository demo_send_line_break)
qed

lemma demo_run_without_url:
  "run v w inputs_without_url =
     [SetOutput ''summary'' ''Custom changes data here'',
      SetOutput ''response'' ''No API configured - summary generated only'',
      SetOutput ''status'' ''200'']"
  by (cases v) (simp_all add: run_def summary_block_def delivery_block_def hasApiConfig_def
      inputs_without_url_def demo_inputs_def)

lemma demo_run_without_api_key:
  "run IndexJs w inputs_without_api_key =
     [SetOutput ''summary'' ''Custom changes data here'',
      SetOutput ''response'' ''No API configured - summary generated only'',
      SetOutput ''status'' ''200'']"
  by (simp add: run_def summary_block_def delivery_block_def hasApiConfig_def
      inputs_without_api_key_def demo_inputs_def)

lemma no_git_run:
  assumes "blackbox_api_key inp = ''bb-key''" and "changes inp = []"
  shows "run v no_git_world inp =
     [Call GetCommitChanges, Exec cmd_message,
      SetFailed ''Could not retrieve commit data and no changes provided'']"
proof -
  have "getCommitChanges v no_git_world = ([Call GetCommitChanges, Exec cmd_message], None)"
    by (simp add: getCommitChanges_def exec_def no_git_world_def)
  with assms show ?thesis
    by (simp add: run_def summary_block_def)
qed

lemma sendToAPI_exec:
  assumes "sendToAPI v w summary apiKey apiUrl c = (es, r)" and "Exec cmd \<in> set es"
  shows "GITHUB_REPOSITORY w = []"
proof (cases "new_URL w apiUrl")
  case (Inl t)
  with assms show ?thesis by (auto simp: sendToAPI_thrown)
next
  case (Inr u)
  with assms show ?thesis
    by (auto simp: sendToAPI_sent repository_name_events split: if_splits outcome.splits)
qed

lemma delivery_block_shape:
  "\<exists>es tail. delivery_block v w inp c s = es @ tail \<and> (\<forall>e\<in>set es. delivery_event e) \<and>
     (\<forall>e\<in>set tail. is_SetOutput e \<or> is_SetFailed e) \<and>
     (es \<noteq> [] \<longrightarrow> Call SendToAPI \<in> set es) \<and>
     (\<forall>cmd. Exec cmd \<in> set es \<longrightarrow> GITHUB_REPOSITORY w = [])"
proof (cases "hasApiConfig v inp")
  case False
  then have "delivery_block v w inp c s = [] @
      [SetOutput ''response'' ''No API configured - summary generated only'',
       SetOutput ''status'' ''200'']"
    by (simp add: delivery_block_def)
  then show ?thesis by (intro exI[of _ "[]"] exI conjI) (assumption, simp_all)
next
  case True
  obtain es r where sa: "sendToAPI v w s (api_key inp) (api_url inp) c = (es, r)"
    by (cases "sendToAPI v w s (api_key inp) (api_url inp) c")
  note ev = sendToAPI_events[OF sa] sendToAPI_call[OF sa] sendToAPI_exec[OF sa]
  show ?thesis
  proof (cases r)
    case (Inl e)
    with True sa have "delivery_block v w inp c s = es @ [SetFailed (error_message e)]"
      by (simp add: delivery_block_def)
    with ev show ?thesis by (intro exI[of _ es] exI conjI) (assumption, auto)
  next
    case (Inr resp)
    with True sa have "delivery_block v w inp c s = es @
        [SetOutput ''response'' (body resp), SetOutput ''status'' (toString (statusCode resp))]"
      by (simp add: delivery_block_def)
    with ev show ?thesis by (intro exI[of _ es] exI conjI) (assumption, auto)
  qed
qed

lemma run_with_changes:
  assumes "changes inp \<noteq> []" and "blackbox_api_key inp \<noteq> []"
  shows "run v w inp =
     SetOutput ''summary'' (changes inp) # delivery_block v w inp None (changes inp)"
  using assms by (simp add: run_def summary_block_def)

lemma run_with_changes_events:
  assumes "changes inp \<noteq> []"
  shows "Call GetCommitChanges \<notin> set (run v w inp)"
    "Call GenerateSummary \<notin> set (run v w inp)"
    "Request GenerateSummary q \<notin> set (run v w inp)"
    "Exec c \<in> set (run v w inp) \<Longrightarrow>
       c = cmd_remote \<and> Call SendToAPI \<in> set (run v w inp) \<and> GITHUB_REPOSITORY w = []"
proof -
  have "Call GetCommitChanges \<notin> set (run v w inp) \<and> Call GenerateSummary \<notin> set (run v w inp) \<and>
     Request GenerateSummary q \<notin> set (run v w inp) \<and>
     (Exec c \<in> set (run v w inp) \<longrightarrow>
        c = cmd_remote \<and> Call SendToAPI \<in> set (run v w inp) \<and> GITHUB_REPOSITORY w = [])"
  proof (cases "blackbox_api_key inp = []")
    case True
    then show ?thesis by (simp add: run_def)
  next
    case False
    obtain es tail where sh: "delivery_block v w inp None (changes inp) = es @ tail"
      "\<forall>e\<in>set es. delivery_event e" "\<forall>e\<in>set tail. is_SetOutput e \<or> is_SetFailed e"
      "es \<noteq> [] \<longrightarrow> Call SendToAPI \<in> set es"
      "\<forall>cmd. Exec cmd \<in> set es \<longrightarrow> GITHUB_REPOSITORY w = []"
      using delivery_block_shape[of v w inp None "changes inp"] by blast
    have r: "run v w inp = SetOutput ''summary'' (changes inp) # es @ tail"
      using run_with_changes[OF assms False] sh(1) by simp
    have a: "Call GetCommitChanges \<notin> set es" "Call GenerateSummary \<notin> set es"
      "Request GenerateSummary q \<notin> set es"
      using sh(2) by auto
    have b: "Call GetCommitChanges \<notin> set tail" "Call GenerateSummary \<notin> set tail"
      "Request GenerateSummary q \<notin> set tail" "Exec c \<notin> set tail"
      using sh(3) by auto
    have e: "Exec c \<in> set es \<Longrightarrow>
        c = cmd_remote \<and> Call SendToAPI \<in> set es \<and> GITHUB_REPOSITORY w = []"
      using sh(2,4,5) by auto
    from a b e show ?thesis unfolding r by auto
  qed
  then show "Call GetCommitChanges \<notin> set (run v w inp)"
    "Call GenerateSummary \<notin> set (run v w inp)"
    "Request GenerateSummary q \<notin> set (run v w inp)"
    "Exec c \<in> set (run v w inp) \<Longrightarrow>
       c = cmd_remote \<and> Call SendToAPI \<in> set (run v w inp) \<and> GITHUB_REPOSITORY w = []"
    by blast+
qed

lemma run_with_changes_summary:
  assumes "changes inp \<noteq> []"
  shows "blackbox_api_key inp \<noteq> [] \<Longrightarrow> outputs (run v w inp) ''summary'' = Some (changes inp)"
    and "blackbox_api_key inp = [] \<Longrightarrow> outputs (run v w inp) ''summary'' = None"
proof -
  assume key: "blackbox_api_key inp \<noteq> []"
  have "summary_block v w inp (model_or_default inp) = ([], Inr (None, changes inp))"
    using assms by (rule summary_block_changes)
  from run_summary_published[OF key this] show "outputs (run v w inp) ''summary'' = Some (changes inp)" .
next
  assume "blackbox_api_key inp = []"
  then show "outputs (run v w inp) ''summary'' = None" by (simp add: run_def)
qed

lemma run_without_key:
  assumes "blackbox_api_key inp = []"
  shows "run v w inp = [SetFailed ''BlackBox API key is required'']"
    and "failed (run v w inp)" and "exitCode (run v w inp) = 1"
    and "outputs (run v w inp) n = None"
  using assms by (simp_all add: run_def failed_def exitCode_def)

lemma content_at_Some:
  "content_at sel r = Some cnt \<longleftrightarrow>
     (\<exists>choices choice msg. member r ''choices'' = Some choices \<and> sel choices = Some choice \<and>
        member choice ''message'' = Some msg \<and> member msg ''content'' = Some (JStr cnt))"
proof -
  have sv: "string_value x = Some cnt \<longleftrightarrow> x = JStr cnt" for x
    by (cases x) auto
  show ?thesis
    by (auto simp: content_at_def bind_eq_Some_conv sv)
qed

lemma member_Some: "member v n = Some x \<Longrightarrow> \<exists>kvs. v = JObj kvs"
  by (cases v) auto

lemma member_truthy: "member v n = Some x \<Longrightarrow> truthy (Some v)"
  by (cases v) auto

lemma index0_object:
  "member choice n = Some x \<Longrightarrow>
     index0 choices = Some choice \<longleftrightarrow>
       array_first choices = Some choice \<or> keyed_first choices = Some choice"
proof (cases choices)
  case (JArr xs)
  then show ?thesis by (cases xs) auto
next
  case (JStr s)
  assume "member choice n = Some x"
  with JStr show ?thesis by (cases s) auto
qed auto

lemma index0_truthy:
  "index0 choices = Some choice \<Longrightarrow> truthy (Some choices)"
proof (cases choices)
  case (JStr s)
  assume "index0 choices = Some choice"
  with JStr show ?thesis by (cases s) auto
qed auto

lemma first_message_Some:
  "first_message r = Some msg \<longleftrightarrow>
     (\<exists>choices choice. member r ''choices'' = Some choices \<and> truthy (Some choices) \<and>
        index0 choices = Some choice \<and> truthy (Some choice) \<and>
        member choice ''message'' = Some msg \<and> truthy (Some msg))"
  by (auto simp: first_message_def split: option.splits if_splits)

lemma content_trim_Inr:
  "content_trim msg = Inr s \<longleftrightarrow> (\<exists>cnt. member msg ''content'' = Some (JStr cnt) \<and> s = trim cnt)"
  by (auto simp: content_trim_def split: option.splits json.splits)

lemma content_trim_Inl:
  "member msg ''content'' = None \<Longrightarrow> \<exists>t. content_trim msg = Inl (TypeError t)"
  by (simp add: content_trim_def)

lemma on_end_Inr:
  "on_end w data = Inr s \<longleftrightarrow>
     (\<exists>r msg. JSON_parse w data = Inr r \<and> r \<noteq> JNull \<and> first_message r = Some msg \<and>
        content_trim msg = Inr s)"
  by (auto simp: on_end_def split: sum.splits option.splits)

lemma on_end_succeeds_iff:
  "on_end w data = Inr s \<longleftrightarrow>
     (\<exists>r cnt. JSON_parse w data = Inr r \<and>
        (content_at array_first r = Some cnt \<or> content_at keyed_first r = Some cnt) \<and>
        s = trim cnt)"
proof
  assume "on_end w data = Inr s"
  then obtain r msg choices choice cnt where
    p: "JSON_parse w data = Inr r" and c: "member r ''choices'' = Some choices"
    and i: "index0 choices = Some choice" and m: "member choice ''message'' = Some msg"
    and t: "member msg ''content'' = Some (JStr cnt)" and s: "s = trim cnt"
    unfolding on_end_Inr first_message_Some content_trim_Inr by blast
  from i index0_object[OF m] have "array_first choices = Some choice \<or> keyed_first choices = Some choice"
    by simp
  with c m t have "content_at array_first r = Some cnt \<or> content_at keyed_first r = Some cnt"
    unfolding content_at_Some by blast
  with p s show "\<exists>r cnt. JSON_parse w data = Inr r \<and>
        (content_at array_first r = Some cnt \<or> content_at keyed_first r = Some cnt) \<and>
        s = trim cnt" by blast
next
  assume "\<exists>r cnt. JSON_parse w data = Inr r \<and>
        (content_at array_first r = Some cnt \<or> content_at keyed_first r = Some cnt) \<and>
        s = trim cnt"
  then obtain r cnt choices choice msg where
    p: "JSON_parse w data = Inr r" and c: "member r ''choices'' = Some choices"
    and a: "array_first choices = Some choice \<or> keyed_first choices = Some choice"
    and m: "member choice ''message'' = Some msg"
    and t: "member msg ''content'' = Some (JStr cnt)" and s: "s = trim cnt"
    unfolding content_at_Some by blast
  from a index0_object[OF m] have i: "index0 choices = Some choice" by simp
  have "r \<noteq> JNull" using c by auto
  moreover have "first_message r = Some msg"
    unfolding first_message_Some
    using c i m index0_truthy[OF i] member_truthy[OF m] member_truthy[OF t] by blast
  moreover have "content_trim msg = Inr s"
    unfolding content_trim_Inr using t s by blast
  ultimately show "on_end w data = Inr s"
    unfolding on_end_Inr using p by blast
qed

lemma on_end_Inl:
  "on_end w data = Inl e \<Longrightarrow> e = InvalidResponseFormat \<or> (\<exists>t. e = FailedToParse t)"
  by (auto simp: on_end_def split: sum.splits option.splits if_splits)

lemma on_end_malformed:
  "JSON_parse w data = Inl t \<Longrightarrow> on_end w data = Inl (FailedToParse t)"
  by (simp add: on_end_def)

lemma on_end_no_choices:
  "JSON_parse w data = Inr (JObj obj) \<Longrightarrow> map_of obj ''choices'' = None \<Longrightarrow>
     on_end w data = Inl InvalidResponseFormat"
  by (simp add: on_end_def first_message_def)

lemma on_end_no_message:
  "JSON_parse w data = Inr (JObj obj) \<Longrightarrow> map_of obj ''choices'' = Some (JArr (JObj fm # rest)) \<Longrightarrow>
     map_of fm ''message'' = None \<Longrightarrow> on_end w data = Inl InvalidResponseFormat"
  by (simp add: on_end_def first_message_def)

lemma on_end_no_content:
  "JSON_parse w data = Inr (JObj obj) \<Longrightarrow> map_of obj ''choices'' = Some (JArr (JObj fm # rest)) \<Longrightarrow>
     map_of fm ''message'' = Some (JObj mm) \<Longrightarrow> map_of mm ''content'' = None \<Longrightarrow>
     \<exists>t. on_end w data = Inl (FailedToParse (TypeError t))"
  by (simp add: on_end_def first_message_def content_trim_def)

lemma generateSummary_result:
  "snd (generateSummary w c k m) =
     (case send w (summaryRequest w c k m) of
        Thrown t \<Rightarrow> Inl (SummaryThrown (thrown_message t))
      | NetError msg \<Rightarrow> Inl (SummaryRequestError msg)
      | NetTimeout \<Rightarrow> Inl SummaryTimeout
      | NetResponse status hs data \<Rightarrow> on_end w data)"
  by (simp add: generateSummary_def Let_def split: outcome.splits)

lemma demo_parse_array:
  "JSON_parse (demo_world d) body_array =
     Inr (JObj [(''choices'',
       JArr [JObj [(''message'', JObj [(''content'', JStr '' Hello '')])]])])"
  by (simp add: demo_world_def)

lemma demo_parse_object:
  "JSON_parse (demo_world d) body_object =
     Inr (JObj [(''choices'',
       JObj [(''0'', JObj [(''message'', JObj [(''content'', JStr ''hi'')])])])])"
  by (simp add: demo_world_def body_array_def body_object_def)

lemma demo_parse_no_choices:
  "JSON_parse (demo_world d) body_no_choices = Inr (JObj [(''error'', JStr ''rate limited'')])"
  by (simp add: demo_world_def body_array_def body_object_def body_no_choices_def)

lemma trim_Hello: "trim '' Hello '' = ''Hello''"
  by (simp add: trim_def isWhiteSpace_def)

lemma short_commit:
  "getCommitChanges Part000 short_hash_world =
     ([Call GetCommitChanges, Exec cmd_message, Exec cmd_hash, Exec cmd_files, Exec cmd_diff,
       Exec cmd_branch],
      Some \<lparr> message = ''Fix the parser'',
             hash = ''abc123'',
             shortHash = ''abc123'',
             files = ''M index.js'',
             diff = ''index.js'',
             branch = ''main'' \<rparr>)"
  by (simp add: getCommitChanges_def exec_def exec_branch_def short_hash_world_def demo_world_def
      trim_def isWhiteSpace_def substring_def
      cmd_message_def cmd_hash_def cmd_files_def cmd_diff_def cmd_branch_def cmd_remote_def)

text \<open>The whole pipeline in the concrete surroundings: the summary is generated.\<close>

lemma demo_commit_any:
  "snd (getCommitChanges v (demo_world d)) =
      Some \<lparr> message = ''Fix the parser'',
             hash = ''0123456789abcdef0123456789abcdef01234567'',
             shortHash = ''01234567'',
             files = ''M index.js'',
             diff = ''index.js'',
             branch = ''main'' \<rparr>"
  by (cases v) (simp_all add: getCommitChanges_def exec_def exec_branch_def demo_world_def trim_def
      isWhiteSpace_def substring_def
      cmd_message_def cmd_hash_def cmd_files_def cmd_diff_def cmd_branch_def cmd_remote_def)

lemma demo_on_end: "on_end (demo_world d) body_array = Inr ''Hello''"
  by (simp add: on_end_def demo_parse_array first_message_def content_trim_def trim_Hello)

lemma demo_generated:
  "snd (summary_block v (demo_world d) inputs_without_changes mdl) =
     Inr (Some \<lparr> message = ''Fix the parser'',
             hash = ''0123456789abcdef0123456789abcdef01234567'',
             shortHash = ''01234567'',
             files = ''M index.js'',
             diff = ''index.js'',
             branch = ''main'' \<rparr>, ''Hello'')"
proof -
  have "send (demo_world d) (summaryRequest (demo_world d) c ''bb-key'' m) =
      NetResponse 200 [] body_array" for c m
    by (simp add: demo_world_def summaryRequest_def Let_def)
  then show ?thesis
    by (simp add: summary_block_result demo_commit_any generateSummary_result demo_on_end
        inputs_without_changes_def demo_inputs_def)
qed

section \<open>The claims\<close>

text \<open>
  C1, in the form that holds of the code. When the delivery endpoint answers the delivery
  request with a status code, 2xx or not (404 for example), the run does not fail: the
  exit code is 0, the \<^verbatim>\<open>status\<close> output is the status code in decimal and the \<^verbatim>\<open>response\<close>
  output is the body received. A run fails exactly when the summarization key is missing,
  the commit data cannot be extracted, the summarization fails, or the Delivery Client
  rejects without a response: it throws before a request is made (\<^verbatim>\<open>new URL\<close> on the
  delivery URL, or \<^verbatim>\<open>client.request\<close> on the request it is given), or the request it made
  ends in a transport error or times out.
\<close>

theorem delivery_status_is_soft:
  "(\<forall>q status hs data.
       Request SendToAPI q \<in> set (run v w inp) \<and> send w q = NetResponse status hs data \<longrightarrow>
       \<not> failed (run v w inp) \<and> exitCode (run v w inp) = 0 \<and>
       outputs (run v w inp) ''status'' = Some (toString status) \<and>
       outputs (run v w inp) ''response'' = Some data) \<and>
   (failed (run v w inp) \<longleftrightarrow>
       blackbox_api_key inp = [] \<or>
       (changes inp = [] \<and> snd (getCommitChanges v w) = None) \<or>
       (changes inp = [] \<and>
          (\<exists>c e. snd (getCommitChanges v w) = Some c \<and>
             snd (generateSummary w c (blackbox_api_key inp) (model_or_default inp)) = Inl e)) \<or>
       (Call SendToAPI \<in> set (run v w inp) \<and>
          (isl (new_URL w (api_url inp)) \<or>
           (\<exists>u c s t. new_URL w (api_url inp) = Inr u \<and>
              snd (summary_block v w inp (model_or_default inp)) = Inr (c, s) \<and>
              send w (deliveryRequest v w u s (snd (repository_name w)) (api_key inp) c) = Thrown t) \<or>
           (\<exists>q. Request SendToAPI q \<in> set (run v w inp) \<and>
                (send w q = NetTimeout \<or> (\<exists>m. send w q = NetError m))))))"
proof -
  have "failed (run v w inp) \<longleftrightarrow>
       blackbox_api_key inp = [] \<or>
       (changes inp = [] \<and> snd (getCommitChanges v w) = None) \<or>
       (changes inp = [] \<and>
          (\<exists>c e. snd (getCommitChanges v w) = Some c \<and>
             snd (generateSummary w c (blackbox_api_key inp) (model_or_default inp)) = Inl e)) \<or>
       (Call SendToAPI \<in> set (run v w inp) \<and>
          (isl (new_URL w (api_url inp)) \<or>
           (\<exists>u c s t. new_URL w (api_url inp) = Inr u \<and>
              snd (summary_block v w inp (model_or_default inp)) = Inr (c, s) \<and>
              send w (deliveryRequest v w u s (snd (repository_name w)) (api_key inp) c) = Thrown t) \<or>
           (\<exists>q. Request SendToAPI q \<in> set (run v w inp) \<and>
                (send w q = NetTimeout \<or> (\<exists>m. send w q = NetError m)))))"
    unfolding run_failed_iff[of v w inp] summary_block_fails_iff by blast
  then show ?thesis using run_responded[of _ v w inp] by blast
qed

theorem delivery_status_is_soft_witness:
  "\<not> failed (run IndexJs (demo_world not_found) demo_inputs) \<and>
   exitCode (run IndexJs (demo_world not_found) demo_inputs) = 0 \<and>
   outputs (run IndexJs (demo_world not_found) demo_inputs) ''status'' = Some ''404'' \<and>
   outputs (run IndexJs (demo_world not_found) demo_inputs) ''response'' = Some ''Not Found'' \<and>
   failed (run IndexJs (demo_world not_found) inputs_without_key) \<and>
   failed (run IndexJs (demo_world not_found) inputs_key_with_line_break)"
proof -
  let ?w = "demo_world not_found"
  let ?q = "deliveryRequest IndexJs ?w demo_url ''Custom changes data here'' ''owner/repo''
    (api_key demo_inputs) None"
  have cfg: "hasApiConfig IndexJs demo_inputs" "blackbox_api_key demo_inputs = ''bb-key''"
    by (simp_all add: hasApiConfig_def demo_inputs_def)
  have sent: "Request SendToAPI ?q \<in> set (run IndexJs ?w demo_inputs)"
    by (simp add: demo_run[OF refl cfg(2) refl cfg(1) demo_key_plain] not_found_def)
  have answered: "send ?w ?q = NetResponse 404 [] ''Not Found''"
    by (simp add: demo_send demo_key_plain not_found_def)
  have nokey: "blackbox_api_key inputs_without_key = []"
    by (simp add: inputs_without_key_def)
  have called: "Call SendToAPI \<in> set (run IndexJs ?w inputs_key_with_line_break)"
    by (simp add: demo_run_line_break)
  have url: "new_URL ?w (api_url inputs_key_with_line_break) = Inr demo_url"
    by (simp add: demo_world_def inputs_key_with_line_break_def demo_inputs_def)
  have block: "snd (summary_block IndexJs ?w inputs_key_with_line_break
      (model_or_default inputs_key_with_line_break)) = Inr (None, ''Custom changes data here'')"
    by (simp add: summary_block_def inputs_key_with_line_break_def demo_inputs_def)
  have thrown: "send ?w (deliveryRequest IndexJs ?w demo_url ''Custom changes data here''
      (snd (repository_name ?w)) (api_key inputs_key_with_line_break) None) =
      Thrown invalid_header"
    by (rule demo_send_line_break)
  from delivery_status_is_soft[of IndexJs ?w demo_inputs] sent answered
  have "\<not> failed (run IndexJs ?w demo_inputs) \<and> exitCode (run IndexJs ?w demo_inputs) = 0 \<and>
     outputs (run IndexJs ?w demo_inputs) ''status'' = Some (toString 404) \<and>
     outputs (run IndexJs ?w demo_inputs) ''response'' = Some ''Not Found''"
    by blast
  moreover from delivery_status_is_soft[of IndexJs ?w inputs_without_key] nokey
  have "failed (run IndexJs ?w inputs_without_key)" by blast
  moreover from delivery_status_is_soft[of IndexJs ?w inputs_key_with_line_break]
    called url block thrown
  have "failed (run IndexJs ?w inputs_key_with_line_break)" by blast
  ultimately show ?thesis by (simp add: toString_404)
qed

text \<open>
  C1 as stated fails in its list of what aborts a run: with the summarization key and
  \<^verbatim>\<open>changes\<close> supplied (so that nothing is extracted or summarized) and a delivery URL
  without scheme, \<^verbatim>\<open>new URL\<close> throws and the run fails, although no delivery request was
  made that could meet a transport error or a timeout. The same happens in \<^verbatim>\<open>index.js\<close>
  with a delivery API key of two lines, on which \<^verbatim>\<open>client.request\<close> throws.
\<close>

theorem delivery_status_counterexample:
  "blackbox_api_key inputs_bad_url \<noteq> [] \<and> changes inputs_bad_url \<noteq> [] \<and>
   api_key inputs_bad_url \<noteq> [] \<and> api_url inputs_bad_url = ''example.com/changes'' \<and>
   failed (run IndexJs (demo_world not_found) inputs_bad_url) \<and>
   exitCode (run IndexJs (demo_world not_found) inputs_bad_url) = 1 \<and>
   Call GetCommitChanges \<notin> set (run IndexJs (demo_world not_found) inputs_bad_url) \<and>
   Call GenerateSummary \<notin> set (run IndexJs (demo_world not_found) inputs_bad_url) \<and>
   delivery_requests (run IndexJs (demo_world not_found) inputs_bad_url) = [] \<and>
   blackbox_api_key inputs_key_with_line_break \<noteq> [] \<and>
   changes inputs_key_with_line_break \<noteq> [] \<and>
   failed (run IndexJs (demo_world not_found) inputs_key_with_line_break) \<and>
   delivery_requests (run IndexJs (demo_world not_found) inputs_key_with_line_break) = []"
  by (simp add: demo_run_bad_url demo_run_line_break failed_def exitCode_def)
     (simp add: inputs_bad_url_def inputs_key_with_line_break_def demo_inputs_def)

text \<open>
  C2, in the form that holds of the code. The Delivery Client is called exactly when
  delivery is configured and the summary was published; the summary is published exactly
  when the summarization key is present and the summary block succeeds. The client makes
  a request exactly when, in addition, \<^verbatim>\<open>new URL\<close> accepts the delivery URL and
  \<^verbatim>\<open>client.request\<close> does not throw on the request it is given. Delivery is
  configured in \<^verbatim>\<open>index.js\<close> when the delivery API key and the URL are both non-empty, in
  the TypeScript variant when the URL is non-empty. With an empty URL the client is never
  called; with an empty key \<^verbatim>\<open>index.js\<close> never calls it.
\<close>

theorem delivery_attempted_iff:
  "(Call SendToAPI \<in> set (run v w inp) \<longleftrightarrow>
      hasApiConfig v inp \<and> outputs (run v w inp) ''summary'' \<noteq> None) \<and>
   ((\<exists>q. Request SendToAPI q \<in> set (run v w inp)) \<longleftrightarrow>
      Call SendToAPI \<in> set (run v w inp) \<and>
      (\<exists>u c s. new_URL w (api_url inp) = Inr u \<and>
         snd (summary_block v w inp (model_or_default inp)) = Inr (c, s) \<and>
         (\<forall>t. send w (deliveryRequest v w u s (snd (repository_name w)) (api_key inp) c) \<noteq> Thrown t))) \<and>
   (outputs (run v w inp) ''summary'' \<noteq> None \<longleftrightarrow>
      blackbox_api_key inp \<noteq> [] \<and>
      (\<exists>c s. snd (summary_block v w inp (model_or_default inp)) = Inr (c, s))) \<and>
   (hasApiConfig IndexJs inp \<longleftrightarrow> api_key inp \<noteq> [] \<and> api_url inp \<noteq> []) \<and>
   (hasApiConfig Part000 inp \<longleftrightarrow> api_url inp \<noteq> []) \<and>
   (api_url inp = [] \<longrightarrow> Call SendToAPI \<notin> set (run v w inp)) \<and>
   (api_key inp = [] \<longrightarrow> Call SendToAPI \<notin> set (run IndexJs w inp))"
proof -
  have req: "(\<exists>q. Request SendToAPI q \<in> set (run v w inp)) \<longleftrightarrow>
      delivery_requests (run v w inp) \<noteq> []"
    unfolding mem_delivery_requests by (cases "delivery_requests (run v w inp)") auto
  have url: "api_url inp = [] \<Longrightarrow> \<not> hasApiConfig v inp"
    by (cases v) (simp_all add: hasApiConfig_def)
  have called: "Call SendToAPI \<in> set (run v w inp) \<longleftrightarrow>
      hasApiConfig v inp \<and> outputs (run v w inp) ''summary'' \<noteq> None"
    unfolding run_summary_output run_called by blast
  have js: "api_key inp = [] \<Longrightarrow> Call SendToAPI \<notin> set (run IndexJs w inp)"
    by (simp add: run_called hasApiConfig_def)
  show ?thesis
    unfolding req run_requests_iff
    using url called js run_summary_output[of v w inp]
    by (simp add: hasApiConfig_def)
qed

theorem delivery_attempted_iff_witness:
  "Call SendToAPI \<in> set (run IndexJs (demo_world not_found) demo_inputs) \<and>
   (\<exists>q. Request SendToAPI q \<in> set (run IndexJs (demo_world not_found) demo_inputs)) \<and>
   Call SendToAPI \<notin> set (run IndexJs (demo_world not_found) inputs_without_api_key) \<and>
   Call SendToAPI \<notin> set (run Part000 (demo_world not_found) inputs_without_url) \<and>
   Call SendToAPI \<in> set (run IndexJs (demo_world not_found) inputs_key_with_line_break) \<and>
   (\<nexists>q. Request SendToAPI q \<in>
      set (run IndexJs (demo_world not_found) inputs_key_with_line_break))"
proof -
  let ?w = "demo_world not_found"
  have cfg: "hasApiConfig IndexJs demo_inputs" "blackbox_api_key demo_inputs = ''bb-key''"
    by (simp_all add: hasApiConfig_def demo_inputs_def)
  have published: "outputs (run IndexJs ?w demo_inputs) ''summary'' \<noteq> None"
    by (simp add: demo_run[OF refl cfg(2) refl cfg(1) demo_key_plain] not_found_def)
  have nokey: "api_key inputs_without_api_key = []"
    by (simp add: inputs_without_api_key_def)
  have nourl: "api_url inputs_without_url = []"
    by (simp add: inputs_without_url_def)
  have url: "new_URL ?w (api_url demo_inputs) = Inr demo_url"
    by (rule demo_new_URL)
  have block: "snd (summary_block IndexJs ?w demo_inputs (model_or_default demo_inputs)) =
      Inr (None, ''Custom changes data here'')"
    by (simp add: summary_block_def demo_inputs_def)
  have accepted: "\<forall>t. send ?w (deliveryRequest IndexJs ?w demo_url ''Custom changes data here''
      (snd (repository_name ?w)) (api_key demo_inputs) None) \<noteq> Thrown t"
    by (simp add: demo_send demo_key_plain not_found_def)
  have cfg': "hasApiConfig IndexJs inputs_key_with_line_break"
    by (simp add: hasApiConfig_def inputs_key_with_line_break_def demo_inputs_def)
  have published': "outputs (run IndexJs ?w inputs_key_with_line_break) ''summary'' \<noteq> None"
    by (simp add: demo_run_line_break)
  have url': "new_URL ?w (api_url inputs_key_with_line_break) = Inr demo_url"
    by (simp add: demo_world_def inputs_key_with_line_break_def demo_inputs_def)
  have block': "snd (summary_block IndexJs ?w inputs_key_with_line_break
      (model_or_default inputs_key_with_line_break)) = Inr (None, ''Custom changes data here'')"
    by (simp add: summary_block_def inputs_key_with_line_break_def demo_inputs_def)
  have thrown: "send ?w (deliveryRequest IndexJs ?w demo_url ''Custom changes data here''
      (snd (repository_name ?w)) (api_key inputs_key_with_line_break) None) =
      Thrown invalid_header"
    by (rule demo_send_line_break)
  from delivery_attempted_iff[of IndexJs ?w demo_inputs] cfg(1) published
  have 1: "Call SendToAPI \<in> set (run IndexJs ?w demo_inputs)" by blast
  from delivery_attempted_iff[of IndexJs ?w demo_inputs] 1 url block accepted
  have 2: "\<exists>q. Request SendToAPI q \<in> set (run IndexJs ?w demo_inputs)" by blast
  from delivery_attempted_iff[of IndexJs ?w inputs_without_api_key] nokey
  have 3: "Call SendToAPI \<notin> set (run IndexJs ?w inputs_without_api_key)" by blast
  from delivery_attempted_iff[of Part000 ?w inputs_without_url] nourl
  have 4: "Call SendToAPI \<notin> set (run Part000 ?w inputs_without_url)" by blast
  from delivery_attempted_iff[of IndexJs ?w inputs_key_with_line_break] cfg' published'
  have 5: "Call SendToAPI \<in> set (run IndexJs ?w inputs_key_with_line_break)" by blast
  have "\<not> (\<exists>u c s. new_URL ?w (api_url inputs_key_with_line_break) = Inr u \<and>
         snd (summary_block IndexJs ?w inputs_key_with_line_break
           (model_or_default inputs_key_with_line_break)) = Inr (c, s) \<and>
         (\<forall>t. send ?w (deliveryRequest IndexJs ?w u s (snd (repository_name ?w))
            (api_key inputs_key_with_line_break) c) \<noteq> Thrown t))"
    using url' block' thrown by auto
  with delivery_attempted_iff[of IndexJs ?w inputs_key_with_line_break]
  have 6: "\<nexists>q. Request SendToAPI q \<in> set (run IndexJs ?w inputs_key_with_line_break)"
    by blast
  from 1 2 3 4 5 6 show ?thesis by blast
qed

text \<open>
  C2 as stated fails in both directions: with both keys and the URL set, no
  \<^verbatim>\<open>changes\<close> and no git repository, \<^verbatim>\<open>index.js\<close> does not call the Delivery Client;
  with a URL and no delivery API key, the TypeScript variant sends one delivery request.
\<close>

theorem delivery_attempted_counterexample:
  "blackbox_api_key inputs_without_changes \<noteq> [] \<and>
   api_key inputs_without_changes \<noteq> [] \<and> api_url inputs_without_changes \<noteq> [] \<and>
   Call SendToAPI \<notin> set (run IndexJs no_git_world inputs_without_changes) \<and>
   delivery_requests (run IndexJs no_git_world inputs_without_changes) = [] \<and>
   api_key inputs_without_api_key = [] \<and>
   length (delivery_requests (run Part000 (demo_world not_found) inputs_without_api_key)) = 1"
proof -
  have cfg: "changes inputs_without_api_key = changes demo_inputs"
    "blackbox_api_key inputs_without_api_key = ''bb-key''"
    "api_url inputs_without_api_key = api_url demo_inputs"
    "hasApiConfig Part000 inputs_without_api_key"
    "CHR 0x0A \<notin> set (api_key inputs_without_api_key)"
    by (simp_all add: hasApiConfig_def inputs_without_api_key_def demo_inputs_def)
  have git: "blackbox_api_key inputs_without_changes = ''bb-key''"
    "changes inputs_without_changes = []"
    by (simp_all add: inputs_without_changes_def demo_inputs_def)
  show ?thesis
    by (simp add: demo_run[OF cfg] no_git_run[OF git] not_found_def)
       (simp add: inputs_without_changes_def inputs_without_api_key_def demo_inputs_def)
qed

text \<open>
  C3, in the form that holds of the code. In a run whose \<^verbatim>\<open>changes\<close> input is not empty,
  neither \<^verbatim>\<open>getCommitChanges\<close> nor \<^verbatim>\<open>generateSummary\<close> is called and no summarization
  request is sent; the only git command that can run is the one of the Delivery Client,
  \<^verbatim>\<open>git config --get remote.origin.url\<close>, when \<^verbatim>\<open>GITHUB_REPOSITORY\<close> is not set. When the
  summarization key is present, the \<^verbatim>\<open>summary\<close> output is the \<^verbatim>\<open>changes\<close> input as
  \<^verbatim>\<open>core.getInput\<close> returns it, character for character; when the key is missing, the run
  does nothing but fail: the exit code is 1 and no output is set.
\<close>

theorem supplied_changes_used_verbatim:
  assumes "changes inp \<noteq> []"
  shows "Call GetCommitChanges \<notin> set (run v w inp) \<and>
     Call GenerateSummary \<notin> set (run v w inp) \<and>
     (\<forall>q. Request GenerateSummary q \<notin> set (run v w inp)) \<and>
     (\<forall>c. Exec c \<in> set (run v w inp) \<longrightarrow>
        c = cmd_remote \<and> Call SendToAPI \<in> set (run v w inp) \<and> GITHUB_REPOSITORY w = []) \<and>
     (blackbox_api_key inp \<noteq> [] \<longrightarrow> outputs (run v w inp) ''summary'' = Some (changes inp)) \<and>
     (blackbox_api_key inp = [] \<longrightarrow>
        run v w inp = [SetFailed ''BlackBox API key is required''] \<and>
        failed (run v w inp) \<and> exitCode (run v w inp) = 1 \<and>
        (\<forall>name. outputs (run v w inp) name = None))"
  using run_with_changes_events[OF assms] run_with_changes_summary(1)[OF assms]
    run_without_key[of inp v w]
  by blast

theorem supplied_changes_used_verbatim_witness:
  "Call GetCommitChanges \<notin> set (run Part000 (demo_world not_found) demo_inputs) \<and>
   Call GenerateSummary \<notin> set (run Part000 (demo_world not_found) demo_inputs) \<and>
   outputs (run Part000 (demo_world not_found) demo_inputs) ''summary'' =
     Some ''Custom changes data here'' \<and>
   failed (run Part000 (demo_world not_found) inputs_without_key) \<and>
   exitCode (run Part000 (demo_world not_found) inputs_without_key) = 1 \<and>
   outputs (run Part000 (demo_world not_found) inputs_without_key) ''summary'' = None \<and>
   outputs (run Part000 (demo_world not_found) inputs_without_key) ''response'' = None \<and>
   outputs (run Part000 (demo_world not_found) inputs_without_key) ''status'' = None"
proof -
  have c: "changes demo_inputs \<noteq> []" and k: "blackbox_api_key demo_inputs \<noteq> []"
    and v: "changes demo_inputs = ''Custom changes data here''"
    by (simp_all add: demo_inputs_def)
  have c': "changes inputs_without_key \<noteq> []" and k': "blackbox_api_key inputs_without_key = []"
    by (simp_all add: inputs_without_key_def demo_inputs_def)
  from supplied_changes_used_verbatim[OF c, of Part000 "demo_world not_found"] k v
  have "Call GetCommitChanges \<notin> set (run Part000 (demo_world not_found) demo_inputs) \<and>
   Call GenerateSummary \<notin> set (run Part000 (demo_world not_found) demo_inputs) \<and>
   outputs (run Part000 (demo_world not_found) demo_inputs) ''summary'' =
     Some ''Custom changes data here''" by simp
  moreover from supplied_changes_used_verbatim[OF c', of Part000 "demo_world not_found"] k'
  have "failed (run Part000 (demo_world not_found) inputs_without_key) \<and>
   exitCode (run Part000 (demo_world not_found) inputs_without_key) = 1 \<and>
   (\<forall>name. outputs (run Part000 (demo_world not_found) inputs_without_key) name = None)"
    by blast
  ultimately show ?thesis by blast
qed

text \<open>
  C3 as stated fails: with \<^verbatim>\<open>changes\<close> supplied and no summarization key the \<^verbatim>\<open>summary\<close>
  output is never set; and with \<^verbatim>\<open>changes\<close> supplied, delivery configured and no
  \<^verbatim>\<open>GITHUB_REPOSITORY\<close>, the run does query git, for the remote URL.
\<close>

theorem supplied_changes_counterexample:
  "changes inputs_without_key \<noteq> [] \<and>
   outputs (run IndexJs (demo_world not_found) inputs_without_key) ''summary'' = None \<and>
   changes demo_inputs \<noteq> [] \<and>
   Exec cmd_remote \<in> set (run IndexJs (demo_world not_found) demo_inputs)"
proof -
  have cfg: "hasApiConfig IndexJs demo_inputs" "blackbox_api_key demo_inputs = ''bb-key''"
    by (simp_all add: hasApiConfig_def demo_inputs_def)
  show ?thesis
    by (simp add: demo_run[OF refl cfg(2) refl cfg(1) demo_key_plain] demo_run_without_key)
       (simp add: inputs_without_key_def demo_inputs_def)
qed

text \<open>
  C4, in the form that holds of the code. In a run without delivery URL the Delivery
  Client is not called and no delivery request is sent. When the summary is published
  (the summarization key is present and the summary block succeeds), the run does not
  fail, the exit code is 0, the \<^verbatim>\<open>status\<close> output is \<^verbatim>\<open>200\<close> and the \<^verbatim>\<open>response\<close> output is
  the fixed text; otherwise the run fails and sets neither output.
\<close>

theorem no_url_skips_delivery:
  assumes "api_url inp = []"
  shows "Call SendToAPI \<notin> set (run v w inp) \<and>
     (\<forall>q. Request SendToAPI q \<notin> set (run v w inp)) \<and>
     (outputs (run v w inp) ''summary'' \<noteq> None \<longrightarrow>
        \<not> failed (run v w inp) \<and> exitCode (run v w inp) = 0 \<and>
        outputs (run v w inp) ''status'' = Some ''200'' \<and>
        outputs (run v w inp) ''response'' = Some ''No API configured - summary generated only'') \<and>
     (outputs (run v w inp) ''summary'' = None \<longrightarrow>
        failed (run v w inp) \<and> exitCode (run v w inp) = 1 \<and>
        outputs (run v w inp) ''status'' = None \<and> outputs (run v w inp) ''response'' = None) \<and>
     (outputs (run v w inp) ''summary'' \<noteq> None \<longleftrightarrow>
        blackbox_api_key inp \<noteq> [] \<and>
        (\<exists>c s. snd (summary_block v w inp (model_or_default inp)) = Inr (c, s)))"
proof -
  have cfg: "\<not> hasApiConfig v inp"
    using assms by (cases v) (simp_all add: hasApiConfig_def)
  have "Call SendToAPI \<notin> set (run v w inp) \<and>
     (\<forall>q. Request SendToAPI q \<notin> set (run v w inp)) \<and>
     (outputs (run v w inp) ''summary'' \<noteq> None \<longrightarrow>
        \<not> failed (run v w inp) \<and> exitCode (run v w inp) = 0 \<and>
        outputs (run v w inp) ''status'' = Some ''200'' \<and>
        outputs (run v w inp) ''response'' = Some ''No API configured - summary generated only'') \<and>
     (outputs (run v w inp) ''summary'' = None \<longrightarrow>
        failed (run v w inp) \<and> exitCode (run v w inp) = 1 \<and>
        outputs (run v w inp) ''status'' = None \<and> outputs (run v w inp) ''response'' = None)"
  proof (cases rule: run_cases[of inp v w])
    case NoKey
    then show ?thesis by (simp add: failed_Cons exitCode_failed)
  next
    case (SummaryFailed es e)
    note t = trace_failed_early[OF summary_block_events[OF SummaryFailed(2)],
        of "error_message e", folded SummaryFailed(3)]
    from t show ?thesis
      by (simp add: exitCode_failed mem_delivery_requests)
  next
    case (Skipped es c s)
    note t = trace_skipped[OF summary_block_events[OF Skipped(2)], of s
        "''No API configured - summary generated only''" "''200''", folded Skipped(4)]
    from t show ?thesis
      by (simp add: exitCode_failed mem_delivery_requests)
  next
    case (DeliveryFailed es c s es' e)
    with cfg show ?thesis by simp
  next
    case (Delivered es c s es' r)
    with cfg show ?thesis by simp
  qed
  with run_summary_output[of v w inp] show ?thesis by blast
qed

theorem no_url_skips_delivery_witness:
  "\<not> failed (run IndexJs (demo_world not_found) inputs_without_url) \<and>
   exitCode (run IndexJs (demo_world not_found) inputs_without_url) = 0 \<and>
   outputs (run IndexJs (demo_world not_found) inputs_without_url) ''status'' = Some ''200'' \<and>
   outputs (run IndexJs (demo_world not_found) inputs_without_url) ''response'' =
     Some ''No API configured - summary generated only'' \<and>
   Call SendToAPI \<notin> set (run IndexJs (demo_world not_found) inputs_without_url)"
proof -
  have u: "api_url inputs_without_url = []"
    by (simp add: inputs_without_url_def)
  have p: "outputs (run IndexJs (demo_world not_found) inputs_without_url) ''summary'' \<noteq> None"
    by (simp add: demo_run_without_url)
  from no_url_skips_delivery[OF u, of IndexJs "demo_world not_found"] p
  show ?thesis by blast
qed

text \<open>
  C4 as stated fails: without a delivery URL, with the summarization key, no \<^verbatim>\<open>changes\<close>
  and no git repository, the run fails with exit code 1, and the \<^verbatim>\<open>status\<close> and
  \<^verbatim>\<open>response\<close> outputs are not set.
\<close>

theorem no_url_counterexample:
  "api_url inputs_without_changes_and_url = [] \<and>
   blackbox_api_key inputs_without_changes_and_url \<noteq> [] \<and>
   failed (run IndexJs no_git_world inputs_without_changes_and_url) \<and>
   exitCode (run IndexJs no_git_world inputs_without_changes_and_url) = 1 \<and>
   outputs (run IndexJs no_git_world inputs_without_changes_and_url) ''status'' = None \<and>
   outputs (run IndexJs no_git_world inputs_without_changes_and_url) ''response'' = None"
proof -
  have git: "blackbox_api_key inputs_without_changes_and_url = ''bb-key''"
    "changes inputs_without_changes_and_url = []"
    by (simp_all add: inputs_without_changes_and_url_def demo_inputs_def)
  show ?thesis
    by (simp add: no_git_run[OF git] failed_def exitCode_def)
       (simp add: inputs_without_changes_and_url_def demo_inputs_def)
qed

text \<open>
  C5, in the form that holds of the code. On a received body, \<^verbatim>\<open>generateSummary\<close> succeeds
  exactly when the body parses to a value whose \<^verbatim>\<open>choices\<close> has a first choice (the first
  element of an array, as the specification says, or the member \<^verbatim>\<open>"0"\<close> of an object)
  with a \<^verbatim>\<open>message\<close> whose \<^verbatim>\<open>content\<close> is a string; the result is that string trimmed.
  Every failure on a received body is an invalid format or a failure to parse, never a
  request error or a timeout: malformed JSON fails to parse, a missing \<^verbatim>\<open>choices\<close> or
  \<^verbatim>\<open>message\<close> is an invalid format, a missing \<^verbatim>\<open>content\<close> is a \<^verbatim>\<open>TypeError\<close> reported as a
  failure to parse.
\<close>

theorem generateSummary_response_shape:
  "(on_end w data = Inr s \<longleftrightarrow>
      (\<exists>r cnt. JSON_parse w data = Inr r \<and>
         (spec_content r = Some cnt \<or> content_at keyed_first r = Some cnt) \<and>
         s = trim cnt)) \<and>
   (\<forall>e. on_end w data = Inl e \<longrightarrow> e = InvalidResponseFormat \<or> (\<exists>t. e = FailedToParse t)) \<and>
   (\<forall>t. JSON_parse w data = Inl t \<longrightarrow> on_end w data = Inl (FailedToParse t)) \<and>
   (\<forall>obj. JSON_parse w data = Inr (JObj obj) \<and> map_of obj ''choices'' = None \<longrightarrow>
      on_end w data = Inl InvalidResponseFormat) \<and>
   (\<forall>obj fm rest. JSON_parse w data = Inr (JObj obj) \<and>
      map_of obj ''choices'' = Some (JArr (JObj fm # rest)) \<and> map_of fm ''message'' = None \<longrightarrow>
      on_end w data = Inl InvalidResponseFormat) \<and>
   (\<forall>obj fm rest mm. JSON_parse w data = Inr (JObj obj) \<and>
      map_of obj ''choices'' = Some (JArr (JObj fm # rest)) \<and>
      map_of fm ''message'' = Some (JObj mm) \<and> map_of mm ''content'' = None \<longrightarrow>
      (\<exists>t. on_end w data = Inl (FailedToParse (TypeError t)))) \<and>
   (\<forall>c k m status hs. send w (summaryRequest w c k m) = NetResponse status hs data \<longrightarrow>
      snd (generateSummary w c k m) = on_end w data)"
proof -
  have link: "send w (summaryRequest w c k m) = NetResponse status hs data \<Longrightarrow>
      snd (generateSummary w c k m) = on_end w data" for c k m status hs
    by (simp add: generateSummary_result)
  show ?thesis
    unfolding spec_content_def on_end_succeeds_iff[symmetric]
    using on_end_Inl[of w data] on_end_malformed[of w data] on_end_no_choices[of w data]
      on_end_no_message[of w data] on_end_no_content[of w data] link
    by blast
qed

theorem generateSummary_response_shape_witness:
  "on_end (demo_world not_found) body_array = Inr ''Hello'' \<and>
   on_end (demo_world not_found) body_no_choices = Inl InvalidResponseFormat \<and>
   snd (generateSummary (demo_world not_found)
     \<lparr> message = ''Fix the parser'', hash = ''0123456789abcdef0123456789abcdef01234567'',
       shortHash = ''01234567'', files = ''M index.js'', diff = ''index.js'', branch = ''main'' \<rparr>
     ''bb-key'' ''blackboxai'') = Inr ''Hello''"
proof -
  let ?w = "demo_world not_found"
  let ?c = "\<lparr> message = ''Fix the parser'', hash = ''0123456789abcdef0123456789abcdef01234567'',
       shortHash = ''01234567'', files = ''M index.js'', diff = ''index.js'', branch = ''main'' \<rparr>"
  let ?r = "JObj [(''choices'',
       JArr [JObj [(''message'', JObj [(''content'', JStr '' Hello '')])]])]"
  have shape: "spec_content ?r = Some '' Hello ''"
    by (simp add: spec_content_def content_at_def)
  have ok: "on_end ?w body_array = Inr (trim '' Hello '')"
    using generateSummary_response_shape[of ?w body_array "trim '' Hello ''"]
      demo_parse_array[of not_found] shape by blast
  have none: "map_of [(''error'', JStr ''rate limited'')] ''choices'' = None"
    by simp
  have bad: "on_end ?w body_no_choices = Inl InvalidResponseFormat"
    using generateSummary_response_shape[of ?w body_no_choices s for s]
      demo_parse_no_choices[of not_found] none by blast
  have answered: "send ?w (summaryRequest ?w ?c ''bb-key'' ''blackboxai'') =
      NetResponse 200 [] body_array"
    by (simp add: demo_world_def summaryRequest_def Let_def)
  have "snd (generateSummary ?w ?c ''bb-key'' ''blackboxai'') = on_end ?w body_array"
    using generateSummary_response_shape[of ?w body_array s for s] answered by blast
  with ok bad show ?thesis by (simp add: trim_Hello)
qed

text \<open>
  C5 as stated fails: a body whose \<^verbatim>\<open>choices\<close> is an object with a member \<^verbatim>\<open>"0"\<close>, not
  an array, is accepted, since \<^verbatim>\<open>response.choices[0]\<close> reads that member.
\<close>

theorem generateSummary_response_shape_counterexample:
  "JSON_parse (demo_world not_found) body_object =
     Inr (JObj [(''choices'',
       JObj [(''0'', JObj [(''message'', JObj [(''content'', JStr ''hi'')])])])]) \<and>
   spec_content (JObj [(''choices'',
       JObj [(''0'', JObj [(''message'', JObj [(''content'', JStr ''hi'')])])])]) = None \<and>
   on_end (demo_world not_found) body_object = Inr ''hi''"
  by (simp add: demo_parse_object spec_content_def content_at_def on_end_def first_message_def
      content_trim_def trim_def isWhiteSpace_def)

text \<open>
  C6. Path normalization is idempotent: normalizing an already normalized path gives the
  same path, and so does the request path of a URL whose path was normalized before (the
  query string is the same). For the path \<^verbatim>\<open>/a/\<close> of \<^verbatim>\<open>https://x.com/a/\<close>, normalizing once
  and normalizing the result both give \<^verbatim>\<open>/a/generate-content\<close>: the segment is appended
  once.
\<close>

theorem normalizePath_idempotent:
  "normalizePath (normalizePath p) = normalizePath p \<and>
   requestPath (u\<lparr>pathname := normalizePath (pathname u)\<rparr>) = requestPath u \<and>
   normalizePath ''/a/'' = ''/a/generate-content'' \<and>
   normalizePath (normalizePath ''/a/'') = ''/a/generate-content''"
proof -
  have once: "normalizePath ''/a/'' = ''/a/generate-content''"
    by (simp add: normalizePath_def endsWith_def replaceTrailingSlash_def)
  have again: "normalizePath ''/a/generate-content'' = ''/a/generate-content''"
    by (simp add: normalizePath_def endsWith_def)
  show ?thesis
    by (simp add: once again normalizePath_idem requestPath_def)
qed

theorem normalizePath_idempotent_witness:
  "requestPath (demo_url\<lparr>pathname := normalizePath (pathname demo_url)\<rparr>) =
     ''/a/generate-content?v=1'' \<and>
   requestPath demo_url = ''/a/generate-content?v=1''"
proof -
  have "requestPath demo_url = ''/a/generate-content?v=1''"
    by (simp add: requestPath_def demo_url_def normalizePath_def endsWith_def
        replaceTrailingSlash_def)
  with normalizePath_idempotent[of "pathname demo_url" demo_url] show ?thesis
    by simp
qed

text \<open>
  C7. For a target URL that \<^verbatim>\<open>new URL\<close> accepts, the path that \<^verbatim>\<open>sendToAPI\<close> gives to
  \<^verbatim>\<open>client.request\<close> is: the URL's path unchanged when it ends with
  \<^verbatim>\<open>/generate-content\<close>; otherwise the path without its trailing slash (one slash, when
  there is one) followed by \<^verbatim>\<open>/generate-content\<close>; in both cases with the URL's query
  string appended. Every delivery request of \<^verbatim>\<open>sendToAPI\<close> has that path, and exactly one
  is made unless \<^verbatim>\<open>client.request\<close> throws.
\<close>

theorem delivery_request_path:
  assumes "new_URL w apiUrl = Inr u"
  shows "(\<forall>q. Request SendToAPI q \<in> set (fst (sendToAPI v w summary apiKey apiUrl commitData)) \<longrightarrow>
        req_path q =
        (if suffix ''/generate-content'' (pathname u) then pathname u
         else (if suffix ''/'' (pathname u) then butlast (pathname u) else pathname u)
              @ ''/generate-content'')
        @ search u) \<and>
     ((\<forall>t. send w (deliveryRequest v w u summary (snd (repository_name w)) apiKey commitData)
          \<noteq> Thrown t) \<longrightarrow>
        map req_path
          (delivery_requests (fst (sendToAPI v w summary apiKey apiUrl commitData))) =
        [(if suffix ''/generate-content'' (pathname u) then pathname u
         else (if suffix ''/'' (pathname u) then butlast (pathname u) else pathname u)
              @ ''/generate-content'')
        @ search u]) \<and>
     ((\<exists>t. send w (deliveryRequest v w u summary (snd (repository_name w)) apiKey commitData)
          = Thrown t) \<longrightarrow>
        delivery_requests (fst (sendToAPI v w summary apiKey apiUrl commitData)) = []) \<and>
     req_path (deliveryRequest v w u summary (snd (repository_name w)) apiKey commitData) =
        (if suffix ''/generate-content'' (pathname u) then pathname u
         else (if suffix ''/'' (pathname u) then butlast (pathname u) else pathname u)
              @ ''/generate-content'')
        @ search u"
proof -
  let ?q = "deliveryRequest v w u summary (snd (repository_name w)) apiKey commitData"
  let ?es = "fst (sendToAPI v w summary apiKey apiUrl commitData)"
  have path: "req_path ?q =
        (if suffix ''/generate-content'' (pathname u) then pathname u
         else (if suffix ''/'' (pathname u) then butlast (pathname u) else pathname u)
              @ ''/generate-content'')
        @ search u"
    by (simp add: deliveryRequest_def Let_def requestPath_def normalizePath_def endsWith_suffix
        replaceTrailingSlash_butlast)
  have reqs: "delivery_requests ?es = (case send w ?q of Thrown t \<Rightarrow> [] | _ \<Rightarrow> [?q])"
    using sendToAPI_requests[of v w summary apiKey apiUrl commitData ?es
        "snd (sendToAPI v w summary apiKey apiUrl commitData)"] assms
    by simp
  have all: "Request SendToAPI q \<in> set ?es \<Longrightarrow> q = ?q" for q
    unfolding mem_delivery_requests reqs by (cases "send w ?q") simp_all
  have one: "\<forall>t. send w ?q \<noteq> Thrown t \<Longrightarrow> delivery_requests ?es = [?q]"
    unfolding reqs by (cases "send w ?q") simp_all
  have none: "\<exists>t. send w ?q = Thrown t \<Longrightarrow> delivery_requests ?es = []"
    unfolding reqs by (cases "send w ?q") simp_all
  have c1: "\<forall>q. Request SendToAPI q \<in> set ?es \<longrightarrow>
        req_path q =
        (if suffix ''/generate-content'' (pathname u) then pathname u
         else (if suffix ''/'' (pathname u) then butlast (pathname u) else pathname u)
              @ ''/generate-content'')
        @ search u"
    using all path by auto
  have c2: "(\<forall>t. send w ?q \<noteq> Thrown t) \<longrightarrow>
        map req_path (delivery_requests ?es) =
        [(if suffix ''/generate-content'' (pathname u) then pathname u
         else (if suffix ''/'' (pathname u) then butlast (pathname u) else pathname u)
              @ ''/generate-content'')
        @ search u]"
    using one path by simp
  have c3: "(\<exists>t. send w ?q = Thrown t) \<longrightarrow> delivery_requests ?es = []"
    using none by blast
  show ?thesis
    by (intro conjI) (rule c1, rule c2, rule c3, rule path)
qed

theorem delivery_request_path_witness:
  "map req_path (delivery_requests (fst (sendToAPI IndexJs (demo_world NetTimeout)
      ''a summary'' ''secret'' (api_url demo_inputs) None))) = [''/a/generate-content?v=1'']"
proof -
  let ?w = "demo_world NetTimeout"
  have url: "new_URL ?w (api_url demo_inputs) = Inr demo_url"
    by (rule demo_new_URL)
  have accepted: "\<forall>t. send ?w (deliveryRequest IndexJs ?w demo_url ''a summary''
      (snd (repository_name ?w)) ''secret'' None) \<noteq> Thrown t"
    by (simp add: demo_send)
  have "\<not> suffix ''/generate-content'' ''/a/''"
    by (simp add: suffix_def)
  moreover have "suffix ''/'' ''/a/''"
    by (simp add: suffix_def)
  moreover have "map req_path (delivery_requests (fst (sendToAPI IndexJs ?w
      ''a summary'' ''secret'' (api_url demo_inputs) None))) =
    [(if suffix ''/generate-content'' (pathname demo_url) then pathname demo_url
         else (if suffix ''/'' (pathname demo_url) then butlast (pathname demo_url)
               else pathname demo_url)
              @ ''/generate-content'')
        @ search demo_url]"
    using delivery_request_path[OF url, of IndexJs "''a summary''" "''secret''" None] accepted
    by blast
  ultimately show ?thesis
    by (simp add: demo_url_def)
qed

text \<open>
  C8. In every commit record that \<^verbatim>\<open>getCommitChanges\<close> returns, \<^verbatim>\<open>shortHash\<close> is a prefix
  of \<^verbatim>\<open>hash\<close>: its first 8 characters when the hash has at least 8, the hash itself when
  it is shorter.
\<close>

theorem shortHash_is_prefix:
  assumes "getCommitChanges v w = (es, Some c)"
  shows "prefix (shortHash c) (hash c) \<and> shortHash c = take 8 (hash c) \<and>
     (8 \<le> length (hash c) \<longrightarrow> length (shortHash c) = 8) \<and>
     (length (hash c) < 8 \<longrightarrow> shortHash c = hash c)"
proof -
  have "shortHash c = take 8 (hash c)"
    using getCommitChanges_Some[OF assms] by (simp add: substring_take)
  then show ?thesis
    by (simp add: take_is_prefix)
qed

theorem shortHash_is_prefix_witness:
  "prefix ''01234567'' ''0123456789abcdef0123456789abcdef01234567'' \<and>
   ''01234567'' = take 8 ''0123456789abcdef0123456789abcdef01234567'' \<and>
   length ''01234567'' = 8 \<and>
   prefix ''abc123'' ''abc123'' \<and> ''abc123'' = take 8 ''abc123''"
  using shortHash_is_prefix[OF demo_commit] shortHash_is_prefix[OF short_commit] by simp

text \<open>
  C9, in the form that holds of the code. Every delivery request carries the
  \<^verbatim>\<open>Content-Type\<close>, \<^verbatim>\<open>Content-Length\<close> (the byte length of its body) and \<^verbatim>\<open>User-Agent\<close>
  headers. A request of \<^verbatim>\<open>index.js\<close> also carries \<^verbatim>\<open>Authorization: Bearer\<close> with the
  delivery API key, which is not empty; a request of the TypeScript variant, which does
  not read the key, carries no \<^verbatim>\<open>Authorization\<close> header.
\<close>

theorem delivery_request_headers:
  assumes "Request SendToAPI q \<in> set (run v w inp)"
  shows "map_of (req_headers q) ''Content-Type'' = Some (Str ''application/json'') \<and>
     map_of (req_headers q) ''Content-Length'' = Some (Num (byteLength (req_body q))) \<and>
     map_of (req_headers q) ''User-Agent'' = Some (Str ''GitHub-Action-Send-Changes/1.0'') \<and>
     (v = IndexJs \<longrightarrow> api_key inp \<noteq> [] \<and>
        map_of (req_headers q) ''Authorization'' = Some (Str (''Bearer '' @ api_key inp))) \<and>
     (v = Part000 \<longrightarrow> map_of (req_headers q) ''Authorization'' = None)"
proof -
  from assms have "q \<in> set (delivery_requests (run v w inp))"
    by (simp add: mem_delivery_requests[symmetric])
  from run_request[OF this] obtain u s c where
    cfg: "hasApiConfig v inp"
    and q: "q = deliveryRequest v w u s (snd (repository_name w)) (api_key inp) c"
    by blast
  show ?thesis
  proof (cases v)
    case IndexJs
    with cfg have "api_key inp \<noteq> []" by (simp add: hasApiConfig_def)
    with IndexJs q show ?thesis
      by (simp add: deliveryRequest_def deliveryHeaders_def Let_def)
  next
    case Part000
    with q show ?thesis
      by (simp add: deliveryRequest_def deliveryHeaders_def Let_def)
  qed
qed

theorem delivery_request_headers_witness:
  "map_of (req_headers (deliveryRequest IndexJs (demo_world not_found) demo_url
      ''Custom changes data here'' ''owner/repo'' (api_key demo_inputs) None))
     ''Authorization'' = Some (Str ''Bearer secret'')"
proof -
  let ?w = "demo_world not_found"
  let ?q = "deliveryRequest IndexJs ?w demo_url ''Custom changes data here'' ''owner/repo''
    (api_key demo_inputs) None"
  have cfg: "hasApiConfig IndexJs demo_inputs" "blackbox_api_key demo_inputs = ''bb-key''"
    by (simp_all add: hasApiConfig_def demo_inputs_def)
  have sent: "Request SendToAPI ?q \<in> set (run IndexJs ?w demo_inputs)"
    by (simp add: demo_run[OF refl cfg(2) refl cfg(1) demo_key_plain] not_found_def)
  have k: "api_key demo_inputs = ''secret''"
    by (simp add: demo_inputs_def)
  from delivery_request_headers[OF sent] show ?thesis
    unfolding k by simp
qed

text \<open>
  C9 as stated fails: with the delivery API key set, the one delivery request of the
  TypeScript variant has no \<^verbatim>\<open>Authorization\<close> header.
\<close>

theorem delivery_request_headers_counterexample:
  "api_key demo_inputs = ''secret'' \<and>
   map (\<lambda>q. map_of (req_headers q) ''Authorization'')
     (delivery_requests (run Part000 (demo_world not_found) demo_inputs)) = [None]"
proof -
  have cfg: "hasApiConfig Part000 demo_inputs" "blackbox_api_key demo_inputs = ''bb-key''"
    by (simp_all add: hasApiConfig_def demo_inputs_def)
  show ?thesis
    by (simp add: demo_run[OF refl cfg(2) refl cfg(1) demo_key_plain] not_found_def deliveryRequest_def
        deliveryHeaders_def Let_def)
       (simp add: demo_inputs_def)
qed

text \<open>
  C10. In every run, a delivery request comes after the \<^verbatim>\<open>summary\<close> output was set, and
  a run that resolves its summary publishes it. So when the delivery request ends in a
  transport error or a timeout, the run fails (exit code 1) with the \<^verbatim>\<open>summary\<close> output
  set and the \<^verbatim>\<open>response\<close> and \<^verbatim>\<open>status\<close> outputs never set.
\<close>

theorem summary_published_before_delivery:
  "(\<forall>pre q post. run v w inp = pre @ Request SendToAPI q # post \<longrightarrow>
       (\<exists>s. SetOutput ''summary'' s \<in> set pre)) \<and>
   (\<forall>es c s. blackbox_api_key inp \<noteq> [] \<and>
       summary_block v w inp (model_or_default inp) = (es, Inr (c, s)) \<longrightarrow>
       outputs (run v w inp) ''summary'' = Some s) \<and>
   (\<forall>q. Request SendToAPI q \<in> set (run v w inp) \<and>
       (send w q = NetTimeout \<or> (\<exists>m. send w q = NetError m)) \<longrightarrow>
       failed (run v w inp) \<and> exitCode (run v w inp) = 1 \<and>
       outputs (run v w inp) ''summary'' \<noteq> None \<and>
       outputs (run v w inp) ''response'' = None \<and>
       outputs (run v w inp) ''status'' = None)"
  using run_ordering run_summary_published run_delivery_lost by blast

theorem summary_published_before_delivery_witness:
  "(\<exists>s. SetOutput ''summary'' s \<in> set [SetOutput ''summary'' ''Custom changes data here'',
        Call SendToAPI, Exec cmd_remote]) \<and>
   outputs (run IndexJs (demo_world NetTimeout) demo_inputs) ''summary'' =
     Some ''Custom changes data here'' \<and>
   failed (run IndexJs (demo_world NetTimeout) demo_inputs) \<and>
   exitCode (run IndexJs (demo_world NetTimeout) demo_inputs) = 1 \<and>
   outputs (run IndexJs (demo_world NetTimeout) demo_inputs) ''response'' = None \<and>
   outputs (run IndexJs (demo_world NetTimeout) demo_inputs) ''status'' = None \<and>
   outputs (run Part000 (demo_world NetTimeout) inputs_without_changes) ''summary'' =
     Some ''Hello''"
proof -
  let ?w = "demo_world NetTimeout"
  let ?q = "deliveryRequest IndexJs ?w demo_url ''Custom changes data here'' ''owner/repo''
    ''secret'' None"
  let ?pre = "[SetOutput ''summary'' ''Custom changes data here'', Call SendToAPI, Exec cmd_remote]"
  have shape: "run IndexJs ?w demo_inputs = ?pre @ Request SendToAPI ?q # [SetFailed ''Request timeout'']"
    by (simp add: demo_run_timeout)
  have key: "blackbox_api_key demo_inputs \<noteq> []"
    by (simp add: demo_inputs_def)
  have block: "summary_block IndexJs ?w demo_inputs (model_or_default demo_inputs) =
      ([], Inr (None, ''Custom changes data here''))"
    by (simp add: summary_block_def demo_inputs_def)
  have sent: "Request SendToAPI ?q \<in> set (run IndexJs ?w demo_inputs)"
    by (simp add: demo_run_timeout)
  have lost: "send ?w ?q = NetTimeout"
    by (rule demo_send) simp
  have key': "blackbox_api_key inputs_without_changes \<noteq> []"
    by (simp add: inputs_without_changes_def demo_inputs_def)
  obtain es where generated: "summary_block Part000 ?w inputs_without_changes
      (model_or_default inputs_without_changes) =
     (es, Inr (Some \<lparr> message = ''Fix the parser'',
             hash = ''0123456789abcdef0123456789abcdef01234567'',
             shortHash = ''01234567'',
             files = ''M index.js'',
             diff = ''index.js'',
             branch = ''main'' \<rparr>, ''Hello''))"
    using demo_generated[of Part000 NetTimeout "model_or_default inputs_without_changes"]
    by (cases "summary_block Part000 ?w inputs_without_changes
      (model_or_default inputs_without_changes)") simp
  from summary_published_before_delivery[of Part000 ?w inputs_without_changes] key' generated
  have "outputs (run Part000 ?w inputs_without_changes) ''summary'' = Some ''Hello''"
    by blast
  with summary_published_before_delivery[of IndexJs ?w demo_inputs] shape key block sent lost
  show ?thesis by blast
qed

end
